theory Spec2Isabelle
  imports Main
begin

unbundle bit_operations_syntax

section \<open>Strings\<close>

text \<open>
  JavaScript strings are modelled as \<open>string\<close>. The built-in methods used by the
  plugin (\<open>startsWith\<close>, \<open>endsWith\<close>, \<open>includes\<close>, \<open>indexOf\<close>,
  \<open>substring\<close>) are written out on lists.
\<close>

definition startsWith :: "string \<Rightarrow> string \<Rightarrow> bool" where
  "startsWith s p = (take (length p) s = p)"

definition endsWith :: "string \<Rightarrow> string \<Rightarrow> bool" where
  "endsWith s p = (length p \<le> length s \<and> drop (length s - length p) s = p)"

fun includes_str :: "string \<Rightarrow> string \<Rightarrow> bool" where
  "includes_str [] p = (p = [])"
| "includes_str (c # cs) p = (startsWith (c # cs) p \<or> includes_str cs p)"

text \<open>\<open>indexOf\<close> returns \<open>-1\<close> when the pattern does not occur.\<close>

fun indexOf :: "string \<Rightarrow> string \<Rightarrow> int" where
  "indexOf [] p = (if p = [] then 0 else - 1)"
| "indexOf (c # cs) p =
     (if startsWith (c # cs) p then 0
      else (let r = indexOf cs p in if r < 0 then - 1 else r + 1))"

text \<open>\<open>s.substring(0, n)\<close> for \<open>n \<ge> 0\<close>.\<close>

definition substring0 :: "string \<Rightarrow> int \<Rightarrow> string" where
  "substring0 s n = take (nat n) s"

section \<open>Rich-text operations (types.ts, DeltaOp)\<close>

text \<open>
  \<open>DeltaOp = { insert: string, attributes?: { link?: string, ... } }\<close>.
  The formatting attributes other than \<open>link\<close> are kept as a key/value list.
\<close>

record Attributes =
  link :: "string option"
  formatting :: "(string \<times> string) list"

record DeltaOp =
  insert_text :: string
  attributes :: "Attributes option"

text \<open>\<open>op.attributes?.link\<close>: undefined when either level is missing.\<close>

definition op_link :: "DeltaOp \<Rightarrow> string option" where
  "op_link op = (case attributes op of None \<Rightarrow> None | Some a \<Rightarrow> link a)"

section \<open>Rich-text link editor (api/singularity.ts)\<close>

definition SID_FRAGMENT :: string where
  "SID_FRAGMENT = ''#sid=''"

text \<open>
  The scanning loop shared by the three finders:
  \<open>for (i = 0; i < ops.length; i++) { if (P(ops[i])) return {index: i, op}; } return null\<close>.
\<close>

fun scan :: "(DeltaOp \<Rightarrow> bool) \<Rightarrow> DeltaOp list \<Rightarrow> nat \<Rightarrow> (nat \<times> DeltaOp) option" where
  "scan P [] i = None"
| "scan P (op # ops) i = (if P op then Some (i, op) else scan P ops (Suc i))"

text \<open>\<open>op.attributes?.link?.includes(sidFragment)\<close>\<close>

definition carriesSid :: "string \<Rightarrow> DeltaOp \<Rightarrow> bool" where
  "carriesSid singularityId op =
     (case op_link op of None \<Rightarrow> False
      | Some l \<Rightarrow> includes_str l (SID_FRAGMENT @ singularityId))"

definition findObsidianLinkById :: "DeltaOp list \<Rightarrow> string \<Rightarrow> (nat \<times> DeltaOp) option" where
  "findObsidianLinkById deltaOps singularityId = scan (carriesSid singularityId) deltaOps 0"

text \<open>
  \<open>findAnyObsidianLink\<close>: the first link of the \<open>obsidian://\<close> scheme that carries no
  \<open>#sid=\<close> at all; links that already carry one are skipped.
\<close>

definition isLegacyLink :: "DeltaOp \<Rightarrow> bool" where
  "isLegacyLink op =
     (case op_link op of None \<Rightarrow> False
      | Some l \<Rightarrow> startsWith l ''obsidian://'' \<and> \<not> includes_str l SID_FRAGMENT)"

definition findAnyObsidianLink :: "DeltaOp list \<Rightarrow> (nat \<times> DeltaOp) option" where
  "findAnyObsidianLink deltaOps = scan isLegacyLink deltaOps 0"

definition newline_op :: DeltaOp where
  "newline_op = \<lparr>insert_text = [CHR 0x0A], attributes = None\<rparr>"

definition linkText :: "string \<Rightarrow> string" where
  "linkText noteTitle = ''Obsidian: '' @ [CHR 0x22] @ noteTitle @ [CHR 0x22]"

definition createNoteLinkOps :: "string \<Rightarrow> string \<Rightarrow> string \<Rightarrow> DeltaOp list" where
  "createNoteLinkOps noteTitle obsidianUrl singularityId =
     (let urlWithSid = obsidianUrl @ SID_FRAGMENT @ singularityId
      in [\<lparr>insert_text = linkText noteTitle,
           attributes = Some \<lparr>link = Some urlWithSid, formatting = []\<rparr>\<rparr>,
          newline_op])"

text \<open>\<open>op?.insert === '\n' && !op.attributes\<close>\<close>

definition isOnlyNewline :: "DeltaOp \<Rightarrow> bool" where
  "isOnlyNewline op = (insert_text op = [CHR 0x0A] \<and> attributes op = None)"

text \<open>
  \<open>{ ...attrs, link: url }\<close>; spreading an undefined \<open>attributes\<close> gives the empty
  object.
\<close>

definition withLink :: "Attributes option \<Rightarrow> string \<Rightarrow> Attributes" where
  "withLink a url =
     (case a of None \<Rightarrow> \<lparr>link = Some url, formatting = []\<rparr>
      | Some at \<Rightarrow> at\<lparr>link := Some url\<rparr>)"

text \<open>
  Arrays are objects with identity. The store below holds every array under an address
  (its position); \<open>[...deltaOps]\<close> allocates a fresh array with the same elements,
  and \<open>pop\<close>, \<open>push\<close> and an indexed assignment change the array they are called
  on.
\<close>

type_synonym store = "DeltaOp list list"

definition spread :: "store \<Rightarrow> nat \<Rightarrow> store \<times> nat" where
  "spread h a = (h @ [h ! a], length h)"

definition array_pop :: "store \<Rightarrow> nat \<Rightarrow> store" where
  "array_pop h a = h[a := butlast (h ! a)]"

definition array_push :: "store \<Rightarrow> nat \<Rightarrow> DeltaOp list \<Rightarrow> store" where
  "array_push h a xs = h[a := h ! a @ xs]"

definition array_set :: "store \<Rightarrow> nat \<Rightarrow> nat \<Rightarrow> DeltaOp \<Rightarrow> store" where
  "array_set h a i v = h[a := (h ! a)[i := v]]"

text \<open>
  \<open>updateObsidianLinkById\<close> as written, on the store: \<open>deltaOps\<close> is the address of
  the caller's array, the result is the store and the address of the returned array.
\<close>

definition updateObsidianLinkById_store ::
  "store \<Rightarrow> nat \<Rightarrow> string \<Rightarrow> string \<Rightarrow> string \<Rightarrow> store \<times> nat" where
  "updateObsidianLinkById_store h deltaOps noteTitle obsidianUrl singularityId =
     (let (h0, ops) = spread h deltaOps;
          existing = findObsidianLinkById (h0 ! ops) singularityId;
          urlWithSid = obsidianUrl @ SID_FRAGMENT @ singularityId
      in case existing of
           Some (index, eop) \<Rightarrow>
             (array_set h0 ops index
                (eop\<lparr>insert_text := linkText noteTitle,
                      attributes := Some (withLink (attributes eop) urlWithSid)\<rparr>), ops)
         | None \<Rightarrow>
             (let newLinkOps = createNoteLinkOps noteTitle obsidianUrl singularityId;
                  h1 = (if length (h0 ! ops) > 0 \<and> isOnlyNewline (last (h0 ! ops))
                        then array_pop h0 ops else h0);
                  h2 = (if length (h1 ! ops) > 0 then array_push h1 ops [newline_op] else h1)
              in (array_push h2 ops newLinkOps, ops)))"

text \<open>The function on values: the returned array, for a caller that owns only \<open>deltaOps\<close>.\<close>

definition updateObsidianLinkById ::
  "DeltaOp list \<Rightarrow> string \<Rightarrow> string \<Rightarrow> string \<Rightarrow> DeltaOp list" where
  "updateObsidianLinkById deltaOps noteTitle obsidianUrl singularityId =
     (let (h, r) = updateObsidianLinkById_store [deltaOps] 0 noteTitle obsidianUrl singularityId
      in h ! r)"

text \<open>
  \<open>addSidToLink\<close> works on a copy \<open>[...deltaOps]\<close>. Reading \<open>ops[linkIndex]\<close> out
  of range gives \<open>undefined\<close>, and \<open>op.attributes\<close> then throws a TypeError
  (\<open>None\<close>). An empty link is falsy and leaves the copy as it is.
\<close>

definition addSidToLink :: "DeltaOp list \<Rightarrow> nat \<Rightarrow> string \<Rightarrow> DeltaOp list option" where
  "addSidToLink deltaOps linkIndex singularityId =
     (let ops = deltaOps in
      if linkIndex < length ops then
        (let op = ops ! linkIndex in
         case op_link op of
           Some l \<Rightarrow>
             (if l \<noteq> [] then
                Some (ops[linkIndex := op\<lparr>attributes :=
                        Some (withLink (attributes op) (l @ SID_FRAGMENT @ singularityId))\<rparr>])
              else Some ops)
         | None \<Rightarrow> Some ops)
      else None)"

definition createInitialDelta :: "string \<Rightarrow> string \<Rightarrow> string \<Rightarrow> DeltaOp list" where
  "createInitialDelta noteTitle obsidianUrl singularityId =
     createNoteLinkOps noteTitle obsidianUrl singularityId"

section \<open>Remote store records (types.ts)\<close>

record SingularityTask =
  task_id :: string
  task_title :: string
  task_note :: "string option"
  task_projectId :: string
  task_tags :: "string list option"
  task_checked :: int

record SingularityTag =
  tag_id :: string
  tag_title :: string
  tag_color :: "string option"
  tag_parent :: "string option"

record KanbanStatus =
  ks_id :: string
  ks_name :: string
  kanbanOrder :: int

record TaskKanbanStatus =
  tks_taskId :: string
  tks_statusId :: string

record Status =
  status_id :: string
  status_name :: string

record TaskData =
  td_id :: string
  td_title :: string
  td_projectId :: string
  td_status :: "Status option"
  td_tags :: "SingularityTag list"
  td_noteId :: "string option"
  td_isCompleted :: bool
  td_isCancelled :: bool

record 'a CacheEntry =
  data :: 'a
  timestamp :: int

text \<open>
  The content of a note is a string that the plugin reads with \<open>JSON.parse\<close>. It is
  modelled by what \<open>JSON.parse\<close> makes of it: a syntax error, or a value, which is an
  array of operations or a JSON value that is no array (\<open>null\<close>, a boolean, a number,
  an object without a property \<open>length\<close>). A JSON string literal, an array-like object
  and an array whose elements are no operations are not modelled.
\<close>

datatype json_other = JNull | JBoolean bool | JNumber int | JObject

datatype parsed = OpsArray "DeltaOp list" | NonArray json_other

datatype Content = SyntaxError | Json parsed

section \<open>The remote store and its client (api/singularity.ts)\<close>

datatype error = ConfigError | RequestFailed | TypeError | WriteFailed

datatype request =
    GET_task string
  | GET_note string
  | PATCH_task string "DeltaOp list"
  | GET_kanban_status string
  | GET_kanban_task_status string
  | GET_tag

text \<open>
  The remote store holds tasks, note contents, the status set of each project, the status
  assignment of each task and the tag catalogue; a missing entry stands for a request
  that the store answers with an error status. \<open>requests\<close> lists the requests sent, the
  oldest first. The client holds the token: with an empty token every call throws before
  anything is sent.
\<close>

record SingularityAPI =
  token :: string
  taskStore :: "string \<Rightarrow> SingularityTask option"
  noteStore :: "string \<Rightarrow> Content option"
  kanbanStatuses :: "string \<Rightarrow> KanbanStatus list option"
  kanbanTaskStatuses :: "string \<Rightarrow> TaskKanbanStatus list option"
  tagCatalog :: "SingularityTag list option"
  requests :: "request list"

text \<open>
  \<open>request\<close>: throws when no token is configured, else sends the request and rejects
  when the store answers with an error.
\<close>

definition request :: "request \<Rightarrow> 'a option \<Rightarrow> SingularityAPI \<Rightarrow> (error + 'a) \<times> SingularityAPI" where
  "request rq answer api =
     (if token api = [] then (Inl ConfigError, api)
      else (case answer of None \<Rightarrow> Inl RequestFailed | Some v \<Rightarrow> Inr v,
            api\<lparr>requests := requests api @ [rq]\<rparr>))"

definition api_getTask :: "string \<Rightarrow> SingularityAPI \<Rightarrow> (error + SingularityTask) \<times> SingularityAPI" where
  "api_getTask taskId api = request (GET_task taskId) (taskStore api taskId) api"

definition api_getNote :: "string \<Rightarrow> SingularityAPI \<Rightarrow> (error + Content) \<times> SingularityAPI" where
  "api_getNote noteId api = request (GET_note noteId) (noteStore api noteId) api"

definition api_getKanbanStatuses ::
  "string \<Rightarrow> SingularityAPI \<Rightarrow> (error + KanbanStatus list) \<times> SingularityAPI" where
  "api_getKanbanStatuses projectId api =
     request (GET_kanban_status projectId) (kanbanStatuses api projectId) api"

definition api_getTaskKanbanStatus ::
  "string \<Rightarrow> SingularityAPI \<Rightarrow> (error + TaskKanbanStatus list) \<times> SingularityAPI" where
  "api_getTaskKanbanStatus taskId api =
     request (GET_kanban_task_status taskId) (kanbanTaskStatuses api taskId) api"

definition api_getTags :: "SingularityAPI \<Rightarrow> (error + SingularityTag list) \<times> SingularityAPI" where
  "api_getTags api = request GET_tag (tagCatalog api) api"

text \<open>\<open>if (task.note)\<close>: null and the empty string are falsy.\<close>

definition truthy_note :: "string option \<Rightarrow> bool" where
  "truthy_note n = (case n of None \<Rightarrow> False | Some x \<Rightarrow> x \<noteq> [])"

text \<open>
  Modelled from the spec: the remote store's answer to \<open>PATCH task(id).body =
  serialize(ops)\<close>, which is not code of this repository. The store keeps the operations
  as the body of the task, under the task's note identifier, or under \<open>N-<taskId>\<close> when
  the task had no note.
\<close>

definition store_patch :: "string \<Rightarrow> DeltaOp list \<Rightarrow> SingularityAPI \<Rightarrow> SingularityAPI" where
  "store_patch taskId deltaOps api =
     (case taskStore api taskId of
        None \<Rightarrow> api
      | Some t \<Rightarrow>
          (let noteId = (if truthy_note (task_note t) then the (task_note t) else ''N-'' @ taskId)
           in api\<lparr>taskStore := (taskStore api)(taskId := Some (t\<lparr>task_note := Some noteId\<rparr>)),
                  noteStore := (noteStore api)(noteId := Some (Json (OpsArray deltaOps)))\<rparr>))"

definition api_updateTaskNote ::
  "string \<Rightarrow> DeltaOp list \<Rightarrow> SingularityAPI \<Rightarrow> (error + SingularityTask) \<times> SingularityAPI" where
  "api_updateTaskNote taskId deltaOps api =
     (case request (PATCH_task taskId deltaOps) (taskStore api taskId) api of
        (Inl e, api') \<Rightarrow> (Inl e, api')
      | (Inr t, api') \<Rightarrow>
          (let api'' = store_patch taskId deltaOps api'
           in (case taskStore api'' taskId of None \<Rightarrow> Inl RequestFailed | Some t' \<Rightarrow> Inr t', api'')))"

text \<open>\<open>parseNoteContent\<close>: \<open>try { return JSON.parse(content) } catch { return [] }\<close>.\<close>

definition parseNoteContent :: "Content \<Rightarrow> parsed" where
  "parseNoteContent content = (case content of SyntaxError \<Rightarrow> OpsArray [] | Json v \<Rightarrow> v)"

section \<open>Record cache (cache/taskCache.ts)\<close>

datatype Language = En | Ru

record Locale =
  statusCancelled :: string
  statusDone :: string

record TaskCache =
  cacheTTL :: int
  language :: Language
  taskCache :: "string \<Rightarrow> TaskData CacheEntry option"
  kanbanCache :: "string \<Rightarrow> KanbanStatus list CacheEntry option"
  tagsCache :: "SingularityTag list CacheEntry option"

text \<open>\<open>Date.now() - timestamp > this.cacheTTL * 60 * 1000\<close>, with \<open>now\<close> for \<open>Date.now()\<close>.\<close>

definition isExpired :: "TaskCache \<Rightarrow> int \<Rightarrow> int \<Rightarrow> bool" where
  "isExpired c now ts = (now - ts > cacheTTL c * 60 * 1000)"

definition getTags ::
  "int \<Rightarrow> TaskCache \<times> SingularityAPI \<Rightarrow> (error + SingularityTag list) \<times> TaskCache \<times> SingularityAPI" where
  "getTags now st =
     (case st of (c, api) \<Rightarrow>
        (if (case tagsCache c of
               Some e \<Rightarrow> \<not> isExpired c now (timestamp e) | None \<Rightarrow> False)
         then (Inr (data (the (tagsCache c))), c, api)
         else (case api_getTags api of
                 (Inl err, api') \<Rightarrow> (Inl err, c, api')
               | (Inr tags, api') \<Rightarrow>
                   (Inr tags, c\<lparr>tagsCache := Some \<lparr>data = tags, timestamp = now\<rparr>\<rparr>, api'))))"

definition getTagsByIds ::
  "int \<Rightarrow> string list \<Rightarrow> TaskCache \<times> SingularityAPI \<Rightarrow>
     (error + SingularityTag list) \<times> TaskCache \<times> SingularityAPI" where
  "getTagsByIds now tagIds st =
     (case getTags now st of
        (Inl err, st') \<Rightarrow> (Inl err, st')
      | (Inr allTags, st') \<Rightarrow> (Inr (filter (\<lambda>tag. tag_id tag \<in> set tagIds) allTags), st'))"

definition getKanbanStatuses ::
  "int \<Rightarrow> string \<Rightarrow> TaskCache \<times> SingularityAPI \<Rightarrow>
     (error + KanbanStatus list) \<times> TaskCache \<times> SingularityAPI" where
  "getKanbanStatuses now projectId st =
     (case st of (c, api) \<Rightarrow>
        (if (case kanbanCache c projectId of
               Some e \<Rightarrow> \<not> isExpired c now (timestamp e) | None \<Rightarrow> False)
         then (Inr (data (the (kanbanCache c projectId))), c, api)
         else (case api_getKanbanStatuses projectId api of
                 (Inl err, api') \<Rightarrow> (Inl err, c, api')
               | (Inr statuses, api') \<Rightarrow>
                   (Inr statuses,
                    c\<lparr>kanbanCache := (kanbanCache c)
                         (projectId := Some \<lparr>data = statuses, timestamp = now\<rparr>)\<rparr>, api'))))"

text \<open>
  The status of a task (\<open>getTaskData\<close>, "Determine status"): cancelled, then completed,
  then the task's first status assignment looked up in the project's statuses, then the
  project's status whose identifier ends with \<open>-TODO\<close>.
\<close>

definition determineStatus ::
  "Locale \<Rightarrow> SingularityTask \<Rightarrow> TaskKanbanStatus list \<Rightarrow> KanbanStatus list \<Rightarrow> Status option" where
  "determineStatus locale task taskKanbanStatus projectStatuses =
     (let isCompleted = (task_checked task = 1);
          isCancelled = (task_checked task = 2)
      in if isCancelled then Some \<lparr>status_id = ''CANCELLED'', status_name = statusCancelled locale\<rparr>
         else if isCompleted then Some \<lparr>status_id = ''DONE'', status_name = statusDone locale\<rparr>
         else if length taskKanbanStatus > 0 then
           (let statusId = tks_statusId (taskKanbanStatus ! 0)
            in case find (\<lambda>s. ks_id s = statusId) projectStatuses of
                 Some kanbanStatus \<Rightarrow>
                   Some \<lparr>status_id = ks_id kanbanStatus, status_name = ks_name kanbanStatus\<rparr>
               | None \<Rightarrow> None)
         else
           (case find (\<lambda>s. endsWith (ks_id s) ''-TODO'') projectStatuses of
              Some todoStatus \<Rightarrow>
                Some \<lparr>status_id = ks_id todoStatus, status_name = ks_name todoStatus\<rparr>
            | None \<Rightarrow> None))"

text \<open>
  \<open>Promise.all\<close> over the three fetches: all three are started; it rejects when one
  of them rejects.
\<close>

definition all3 :: "error + 'a \<Rightarrow> error + 'b \<Rightarrow> error + 'c \<Rightarrow> error + ('a \<times> 'b \<times> 'c)" where
  "all3 r1 r2 r3 =
     (case r1 of Inl e \<Rightarrow> Inl e
      | Inr a \<Rightarrow> (case r2 of Inl e \<Rightarrow> Inl e
                 | Inr b \<Rightarrow> (case r3 of Inl e \<Rightarrow> Inl e | Inr c \<Rightarrow> Inr (a, b, c))))"

definition getTaskData ::
  "(Language \<Rightarrow> Locale) \<Rightarrow> int \<Rightarrow> string \<Rightarrow> TaskCache \<times> SingularityAPI \<Rightarrow>
     (error + TaskData) \<times> TaskCache \<times> SingularityAPI" where
  "getTaskData LOCALES now taskId st =
     (case st of (c, api) \<Rightarrow>
        (if (case taskCache c taskId of
               Some e \<Rightarrow> \<not> isExpired c now (timestamp e) | None \<Rightarrow> False)
         then (Inr (data (the (taskCache c taskId))), c, api)
         else
           (case api_getTask taskId api of
              (Inl err, api1) \<Rightarrow> (Inl err, c, api1)
            | (Inr task, api1) \<Rightarrow>
                (let (r1, api2) = api_getTaskKanbanStatus taskId api1;
                     (r2, st2) = getKanbanStatuses now (task_projectId task) (c, api2);
                     (r3, c3, api3) =
                        getTagsByIds now (case task_tags task of None \<Rightarrow> [] | Some ts \<Rightarrow> ts) st2
                 in case all3 r1 r2 r3 of
                      Inl err \<Rightarrow> (Inl err, c3, api3)
                    | Inr (taskKanbanStatus, projectStatuses, tags) \<Rightarrow>
                        (let status = determineStatus (LOCALES (language c3)) task
                                        taskKanbanStatus projectStatuses;
                             taskData = \<lparr>td_id = task_id task, td_title = task_title task,
                                         td_projectId = task_projectId task, td_status = status,
                                         td_tags = tags, td_noteId = task_note task,
                                         td_isCompleted = (task_checked task = 1),
                                         td_isCancelled = (task_checked task = 2)\<rparr>
                         in (Inr taskData,
                             c3\<lparr>taskCache := (taskCache c3)
                                  (taskId := Some \<lparr>data = taskData, timestamp = now\<rparr>)\<rparr>,
                             api3))))))"

definition invalidateTask :: "string \<Rightarrow> TaskCache \<Rightarrow> TaskCache" where
  "invalidateTask taskId c = c\<lparr>taskCache := (taskCache c)(taskId := None)\<rparr>"

definition invalidateAll :: "TaskCache \<Rightarrow> TaskCache" where
  "invalidateAll c = c\<lparr>taskCache := (\<lambda>_. None), kanbanCache := (\<lambda>_. None), tagsCache := None\<rparr>"

text \<open>
  The copy of the cache in \<open>src/cache/taskCache.ts\<close> has no locale: its labels are the
  Russian words for "cancelled" and "done" (given here as UTF-8 bytes), and a completed
  task takes the project's status whose identifier ends with \<open>-DONE\<close> when there is
  one.
\<close>

definition label_cancelled_ru :: string where
  "label_cancelled_ru =
     [CHR 0xD0, CHR 0x9E, CHR 0xD1, CHR 0x82, CHR 0xD0, CHR 0xBC, CHR 0xD0, CHR 0xB5,
      CHR 0xD0, CHR 0xBD, CHR 0xD0, CHR 0xB5, CHR 0xD0, CHR 0xBD, CHR 0xD0, CHR 0xB0]"

definition label_done_ru :: string where
  "label_done_ru =
     [CHR 0xD0, CHR 0x93, CHR 0xD0, CHR 0xBE, CHR 0xD1, CHR 0x82, CHR 0xD0, CHR 0xBE,
      CHR 0xD0, CHR 0xB2, CHR 0xD0, CHR 0xBE]"

definition determineStatus_unlocalized ::
  "SingularityTask \<Rightarrow> TaskKanbanStatus list \<Rightarrow> KanbanStatus list \<Rightarrow> Status option" where
  "determineStatus_unlocalized task taskKanbanStatus projectStatuses =
     (let isCompleted = (task_checked task = 1);
          isCancelled = (task_checked task = 2)
      in if isCancelled then Some \<lparr>status_id = ''CANCELLED'', status_name = label_cancelled_ru\<rparr>
         else if isCompleted then
           (case find (\<lambda>s. endsWith (ks_id s) ''-DONE'') projectStatuses of
              Some doneStatus \<Rightarrow>
                Some \<lparr>status_id = ks_id doneStatus, status_name = ks_name doneStatus\<rparr>
            | None \<Rightarrow> Some \<lparr>status_id = ''DONE'', status_name = label_done_ru\<rparr>)
         else if length taskKanbanStatus > 0 then
           (let statusId = tks_statusId (taskKanbanStatus ! 0)
            in case find (\<lambda>s. ks_id s = statusId) projectStatuses of
                 Some kanbanStatus \<Rightarrow>
                   Some \<lparr>status_id = ks_id kanbanStatus, status_name = ks_name kanbanStatus\<rparr>
               | None \<Rightarrow> None)
         else
           (case find (\<lambda>s. endsWith (ks_id s) ''-TODO'') projectStatuses of
              Some todoStatus \<Rightarrow>
                Some \<lparr>status_id = ks_id todoStatus, status_name = ks_name todoStatus\<rparr>
            | None \<Rightarrow> None))"

section \<open>Notions used in the statements about the cache\<close>

text \<open>An entry that a read at time \<open>now\<close> serves from the cache.\<close>

definition fresh :: "TaskCache \<Rightarrow> int \<Rightarrow> 'a CacheEntry option \<Rightarrow> bool" where
  "fresh c now e = (case e of Some x \<Rightarrow> \<not> isExpired c now (timestamp x) | None \<Rightarrow> False)"

text \<open>
  The status set of a project and the tag catalogue as a call at time \<open>now\<close> obtains
  them: from the cache when the entry is fresh, from the remote store otherwise
  (\<open>None\<close> when that fetch rejects).
\<close>

definition scopedStatuses ::
  "TaskCache \<Rightarrow> SingularityAPI \<Rightarrow> int \<Rightarrow> string \<Rightarrow> KanbanStatus list option" where
  "scopedStatuses c api now pid =
     (if fresh c now (kanbanCache c pid) then Some (data (the (kanbanCache c pid)))
      else kanbanStatuses api pid)"

definition catalog :: "TaskCache \<Rightarrow> SingularityAPI \<Rightarrow> int \<Rightarrow> SingularityTag list option" where
  "catalog c api now =
     (if fresh c now (tagsCache c) then Some (data (the (tagsCache c))) else tagCatalog api)"

definition asStatus :: "KanbanStatus \<Rightarrow> Status" where
  "asStatus s = \<lparr>status_id = ks_id s, status_name = ks_name s\<rparr>"

text \<open>The requests of a call that misses the per-task cache and finds the task.\<close>

definition fetches :: "TaskCache \<Rightarrow> int \<Rightarrow> string \<Rightarrow> string \<Rightarrow> request list" where
  "fetches c now taskId pid =
     [GET_task taskId, GET_kanban_task_status taskId]
     @ (if fresh c now (kanbanCache c pid) then [] else [GET_kanban_status pid])
     @ (if fresh c now (tagsCache c) then [] else [GET_tag])"

text \<open>
  What the three fetches that follow the task fetch deliver together, and the record that
  \<open>getTaskData\<close> builds from the task and from what they deliver.
\<close>

definition fetched ::
  "TaskCache \<Rightarrow> SingularityAPI \<Rightarrow> int \<Rightarrow> string \<Rightarrow> SingularityTask \<Rightarrow>
     error + (TaskKanbanStatus list \<times> KanbanStatus list \<times> SingularityTag list)" where
  "fetched c api now taskId task =
     all3 (case kanbanTaskStatuses api taskId of None \<Rightarrow> Inl RequestFailed | Some a \<Rightarrow> Inr a)
          (case scopedStatuses c api now (task_projectId task) of
             None \<Rightarrow> Inl RequestFailed | Some ps \<Rightarrow> Inr ps)
          (case catalog c api now of
             None \<Rightarrow> Inl RequestFailed
           | Some ts \<Rightarrow>
               Inr (filter (\<lambda>tag. tag_id tag \<in> set (case task_tags task of None \<Rightarrow> [] | Some i \<Rightarrow> i))
                      ts))"

definition enriched ::
  "Locale \<Rightarrow> SingularityTask \<Rightarrow>
     TaskKanbanStatus list \<times> KanbanStatus list \<times> SingularityTag list \<Rightarrow> TaskData" where
  "enriched locale task x =
     (case x of (tks, ps, tags) \<Rightarrow>
        \<lparr>td_id = task_id task, td_title = task_title task,
         td_projectId = task_projectId task,
         td_status = determineStatus locale task tks ps,
         td_tags = tags, td_noteId = task_note task,
         td_isCompleted = (task_checked task = 1),
         td_isCancelled = (task_checked task = 2)\<rparr>)"

text \<open>The status that the precedence rule gives, for the fixed labels of a locale.\<close>

definition precedence ::
  "Locale \<Rightarrow> SingularityTask \<Rightarrow> TaskKanbanStatus list \<Rightarrow> KanbanStatus list \<Rightarrow> Status option" where
  "precedence locale task tks ps =
     (if task_checked task = 2
      then Some \<lparr>status_id = ''CANCELLED'', status_name = statusCancelled locale\<rparr>
      else if task_checked task = 1
      then Some \<lparr>status_id = ''DONE'', status_name = statusDone locale\<rparr>
      else (case tks of
              a # _ \<Rightarrow> map_option asStatus (find (\<lambda>s. ks_id s = tks_statusId a) ps)
            | [] \<Rightarrow> map_option asStatus (find (\<lambda>s. endsWith (ks_id s) ''-TODO'') ps)))"

section \<open>Sample data for the cache\<close>

text \<open>
  The table \<open>LOCALES\<close> of types.ts is a parameter of \<open>getTaskData\<close>; the sample
  below is an instance with English and Russian labels.
\<close>

definition sample_locales :: "Language \<Rightarrow> Locale" where
  "sample_locales l =
     (case l of
        En \<Rightarrow> \<lparr>statusCancelled = ''Cancelled'', statusDone = ''Done''\<rparr>
      | Ru \<Rightarrow> \<lparr>statusCancelled = label_cancelled_ru, statusDone = label_done_ru\<rparr>)"

definition sample_task :: "int \<Rightarrow> SingularityTask" where
  "sample_task checked =
     \<lparr>task_id = ''T-1'', task_title = ''Write report'', task_note = None,
      task_projectId = ''P-1'', task_tags = Some [''A-1''], task_checked = checked\<rparr>"

definition sample_statuses :: "KanbanStatus list" where
  "sample_statuses =
     [\<lparr>ks_id = ''KS-P-1-TODO'', ks_name = ''Backlog'', kanbanOrder = 0\<rparr>,
      \<lparr>ks_id = ''KS-P-1-IN-PROGRESS'', ks_name = ''Doing'', kanbanOrder = 1\<rparr>,
      \<lparr>ks_id = ''KS-P-1-DONE'', ks_name = ''Shipped'', kanbanOrder = 2\<rparr>]"

definition sample_tags :: "SingularityTag list" where
  "sample_tags =
     [\<lparr>tag_id = ''A-1'', tag_title = ''work'', tag_color = None, tag_parent = None\<rparr>,
      \<lparr>tag_id = ''A-2'', tag_title = ''home'', tag_color = None, tag_parent = None\<rparr>]"

definition sample_api ::
  "int \<Rightarrow> TaskKanbanStatus list option \<Rightarrow> KanbanStatus list \<Rightarrow> SingularityAPI" where
  "sample_api checked assignment statuses =
     \<lparr>token = ''secret'',
      taskStore = (\<lambda>i. if i = ''T-1'' then Some (sample_task checked) else None),
      noteStore = (\<lambda>_. None),
      kanbanStatuses = (\<lambda>p. if p = ''P-1'' then Some statuses else None),
      kanbanTaskStatuses = (\<lambda>i. if i = ''T-1'' then assignment else None),
      tagCatalog = Some sample_tags,
      requests = []\<rparr>"

definition sample_cache :: TaskCache where
  "sample_cache =
     \<lparr>cacheTTL = 5, language = En, taskCache = (\<lambda>_. None), kanbanCache = (\<lambda>_. None),
      tagsCache = None\<rparr>"

definition sample_data :: TaskData where
  "sample_data =
     \<lparr>td_id = ''T-1'', td_title = ''Write report'', td_projectId = ''P-1'',
      td_status = Some \<lparr>status_id = ''KS-P-1-TODO'', status_name = ''Backlog''\<rparr>,
      td_tags = [], td_noteId = None, td_isCompleted = False, td_isCancelled = False\<rparr>"

text \<open>A cache that fetched the sample task, its project's statuses and the tags at time 1000.\<close>

definition warm_cache :: TaskCache where
  "warm_cache =
     \<lparr>cacheTTL = 5, language = En,
      taskCache = (\<lambda>i. if i = ''T-1'' then Some \<lparr>data = sample_data, timestamp = 1000\<rparr> else None),
      kanbanCache = (\<lambda>p. if p = ''P-1'' then Some \<lparr>data = sample_statuses, timestamp = 1000\<rparr>
                          else None),
      tagsCache = Some \<lparr>data = sample_tags, timestamp = 1000\<rparr>\<rparr>"

section \<open>Identity scheme (sync/obsidianLink.ts)\<close>

text \<open>
  Regular expressions with the flag \<open>i\<close> compare ASCII letters without case. The class
  \<open>[a-f0-9-]\<close> under that flag:
\<close>

definition lower :: "char \<Rightarrow> char" where
  "lower c = (if c \<in> set ''ABCDEFGHIJKLMNOPQRSTUVWXYZ''
              then char_of (of_char c + (32::nat)) else c)"

definition startsWith_ci :: "string \<Rightarrow> string \<Rightarrow> bool" where
  "startsWith_ci s p = (map lower (take (length p) s) = map lower p)"

definition isSidChar :: "char \<Rightarrow> bool" where
  "isSidChar c = (c \<in> set ''abcdefABCDEF0123456789-'')"

text \<open>
  \<open>extractSidFromUrl\<close>: the first match of \<open>/#sid=([a-f0-9-]+)/i\<close>, that is the first
  position where \<open>#sid=\<close> (in any case) is followed by a character of the class; the
  result is the longest run of such characters there.
\<close>

fun extractSidFromUrl :: "string \<Rightarrow> string option" where
  "extractSidFromUrl [] = None"
| "extractSidFromUrl (c # cs) =
     (let run = takeWhile isSidChar (drop 5 (c # cs))
      in if startsWith_ci (c # cs) ''#sid='' \<and> run \<noteq> [] then Some run
         else extractSidFromUrl cs)"

text \<open>
  \<open>generateUUID\<close>: every \<open>x\<close> and \<open>y\<close> of the template is replaced, from left to
  right, by a hexadecimal digit made from \<open>r = (Math.random() * 16) | 0\<close>: \<open>r\<close> for
  \<open>x\<close>, \<open>(r & 0x3) | 0x8\<close> for \<open>y\<close>. The random source is a sequence; \<open>rnd k mod
  16\<close> is the \<open>r\<close> of the draw number \<open>k\<close>.
\<close>

definition hexDigit :: "nat \<Rightarrow> char" where
  "hexDigit v = ''0123456789abcdef'' ! v"

fun fillTemplate :: "string \<Rightarrow> (nat \<Rightarrow> nat) \<Rightarrow> nat \<Rightarrow> string" where
  "fillTemplate [] rnd k = []"
| "fillTemplate (c # cs) rnd k =
     (if c = CHR ''x'' \<or> c = CHR ''y'' then
        (let r = rnd k mod 16;
             v = (if c = CHR ''x'' then r else (r AND 3) OR 8)
         in hexDigit v # fillTemplate cs rnd (Suc k))
      else c # fillTemplate cs rnd k)"

definition uuidTemplate :: string where
  "uuidTemplate = ''xxxxxxxx-xxxx-4xxx-yxxx-xxxxxxxxxxxx''"

definition generateUUID :: "(nat \<Rightarrow> nat) \<Rightarrow> nat \<Rightarrow> string" where
  "generateUUID rnd k = fillTemplate uuidTemplate rnd k"

section \<open>Front matter\<close>

text \<open>
  A front matter value: a string, a sequence, a mapping, null, or a number or boolean
  (given by how it prints and by whether it is truthy).
\<close>

datatype fmval =
    FStr string
  | FArr "fmval list"
  | FObj "(string \<times> fmval) list"
  | FNull
  | FPrim string bool

text \<open>
  A field path is read by \<open>fieldName.match(/([^.\[\]]+)|\[(\d+)\]/g)\<close>: its parts are
  the longest runs of characters other than \<open>.\<close>, \<open>[\<close>, \<open>]\<close> (keys) and the groups
  \<open>[digits]\<close> (indices); anything else is skipped.
\<close>

datatype part = Key string | Idx nat

definition isKeyChar :: "char \<Rightarrow> bool" where
  "isKeyChar c = (c \<noteq> CHR ''.'' \<and> c \<noteq> CHR ''['' \<and> c \<noteq> CHR '']'')"

definition isDigit :: "char \<Rightarrow> bool" where
  "isDigit c = (c \<in> set ''0123456789'')"

text \<open>
  \<open>parseInt\<close> of a string of decimal digits, as the exact number: the rounding of
  JavaScript numbers above \<open>2^53\<close> is not modelled.
\<close>

definition digitValue :: "char \<Rightarrow> nat" where
  "digitValue c = of_char c - 48"

definition parseInt :: "string \<Rightarrow> nat" where
  "parseInt ds = foldl (\<lambda>n c. 10 * n + digitValue c) 0 ds"

function pathParts :: "string \<Rightarrow> part list" where
  "pathParts [] = []"
| "pathParts (c # cs) =
     (if isKeyChar c then
        Key (c # takeWhile isKeyChar cs) # pathParts (dropWhile isKeyChar cs)
      else if c = CHR ''['' \<and> takeWhile isDigit cs \<noteq> []
              \<and> (case dropWhile isDigit cs of [] \<Rightarrow> False | d # _ \<Rightarrow> d = CHR '']'')
      then Idx (parseInt (takeWhile isDigit cs)) # pathParts (tl (dropWhile isDigit cs))
      else pathParts cs)"
  by pat_completeness auto
termination
  by (relation "measure length")
     (auto simp: length_dropWhile_le less_Suc_eq_le intro: le_trans [OF diff_le_self])

text \<open>\<open>String(n)\<close> for an index.\<close>

fun digitsOf :: "nat \<Rightarrow> string" where
  "digitsOf n = (if n < 10 then [hexDigit n] else digitsOf (n div 10) @ [hexDigit (n mod 10)])"

text \<open>
  Reading a property \<open>obj[part]\<close> of a value that is neither undefined nor null;
  \<open>None\<close> is \<open>undefined\<close>. A mapping is read by key (an index by its decimal
  string), a sequence by index; of a string an index reads the character. Inherited
  properties (\<open>length\<close>, methods) are not modelled, nor is a sequence read by a key.
\<close>

fun lookup :: "(string \<times> fmval) list \<Rightarrow> string \<Rightarrow> fmval option" where
  "lookup [] k = None"
| "lookup ((k', v) # kvs) k = (if k' = k then Some v else lookup kvs k)"

fun getProp :: "fmval \<Rightarrow> part \<Rightarrow> fmval option" where
  "getProp (FObj kvs) (Key k) = lookup kvs k"
| "getProp (FObj kvs) (Idx n) = lookup kvs (digitsOf n)"
| "getProp (FArr xs) (Idx n) = (if n < length xs then Some (xs ! n) else None)"
| "getProp (FStr s) (Idx n) = (if n < length s then Some (FStr [s ! n]) else None)"
| "getProp _ _ = None"

text \<open>
  \<open>getFieldValue\<close>: follow the parts; an undefined or null value on the way gives
  undefined.
\<close>

fun follow :: "fmval option \<Rightarrow> part list \<Rightarrow> fmval option" where
  "follow current [] = current"
| "follow current (p # ps) =
     (case current of
        None \<Rightarrow> None
      | Some FNull \<Rightarrow> None
      | Some v \<Rightarrow> follow (getProp v p) ps)"

definition getFieldValue :: "(string \<times> fmval) list option \<Rightarrow> string \<Rightarrow> fmval option" where
  "getFieldValue obj fieldName =
     (case obj of
        None \<Rightarrow> None
      | Some entries \<Rightarrow>
          (let parts = pathParts fieldName
           in if parts = [] then None else follow (Some (FObj entries)) parts))"


text \<open>
  Writing a property \<open>obj[part] = v\<close> where \<open>obj[part]\<close> was read before: an entry
  of a mapping, an element of a sequence.
\<close>

fun setKey :: "(string \<times> fmval) list \<Rightarrow> string \<Rightarrow> fmval \<Rightarrow> (string \<times> fmval) list" where
  "setKey [] k v = [(k, v)]"
| "setKey ((k', v') # kvs) k v = (if k' = k then (k, v) # kvs else (k', v') # setKey kvs k v)"

fun setProp :: "fmval \<Rightarrow> part \<Rightarrow> fmval \<Rightarrow> fmval" where
  "setProp (FObj kvs) (Key k) v = FObj (setKey kvs k v)"
| "setProp (FObj kvs) (Idx n) v = FObj (setKey kvs (digitsOf n) v)"
| "setProp (FArr xs) (Idx n) v = FArr (xs[n := v])"
| "setProp obj _ v = obj"

text \<open>Truthiness, and \<open>String(v)\<close> as a template literal prints a value.\<close>

fun truthy :: "fmval \<Rightarrow> bool" where
  "truthy (FStr s) = (s \<noteq> [])"
| "truthy (FArr xs) = True"
| "truthy (FObj kvs) = True"
| "truthy FNull = False"
| "truthy (FPrim r b) = b"

fun joinComma :: "string list \<Rightarrow> string" where
  "joinComma [] = []"
| "joinComma [x] = x"
| "joinComma (x # y # ys) = x @ '','' @ joinComma (y # ys)"

fun render :: "fmval \<Rightarrow> string" where
  "render (FStr s) = s"
| "render (FArr xs) = joinComma (map (\<lambda>x. if x = FNull then [] else render x) xs)"
| "render (FObj kvs) = ''[object Object]''"
| "render FNull = ''null''"
| "render (FPrim r b) = r"

text \<open>
  The last step of the callback of \<open>addSidToFieldUrl\<close>, on the object reached.
  For an index: \<open>if (obj[idx] && !obj[idx].includes('#sid=')) obj[idx] =
  `${obj[idx]}#sid=${sid}`\<close>; \<open>includes\<close> is a method of strings and of sequences
  only, and an element of a string cannot be assigned (a TypeError in strict mode). For a
  key: \<open>if (typeof currentValue === 'string' && !currentValue.includes('#sid='))
  obj[lastPart] = `${currentValue}#sid=${sid}`\<close>.
\<close>

definition addSidLeaf :: "fmval \<Rightarrow> part \<Rightarrow> string \<Rightarrow> error + fmval" where
  "addSidLeaf obj p sid =
     (case p of
        Idx idx \<Rightarrow>
          (case getProp obj (Idx idx) of
             None \<Rightarrow> Inr obj
           | Some v \<Rightarrow>
               if \<not> truthy v then Inr obj
               else (case v of
                       FStr cur \<Rightarrow>
                         if includes_str cur ''#sid='' then Inr obj
                         else (case obj of
                                 FStr _ \<Rightarrow> Inl TypeError
                               | _ \<Rightarrow> Inr (setProp obj (Idx idx) (FStr (cur @ ''#sid='' @ sid))))
                     | FArr xs \<Rightarrow>
                         if FStr ''#sid='' \<in> set xs then Inr obj
                         else Inr (setProp obj (Idx idx) (FStr (render v @ ''#sid='' @ sid)))
                     | _ \<Rightarrow> Inl TypeError))
      | Key k \<Rightarrow>
          (case getProp obj (Key k) of
             Some (FStr cur) \<Rightarrow>
               if includes_str cur ''#sid='' then Inr obj
               else Inr (setProp obj (Key k) (FStr (cur @ ''#sid='' @ sid)))
           | _ \<Rightarrow> Inr obj))"

text \<open>
  The walk \<open>obj = obj[part]\<close> over all parts but the last has no check: reading a
  property of undefined or null throws. The objects are changed in place; here the
  changed object is rebuilt on the way back.
\<close>

fun addSidAt :: "fmval \<Rightarrow> part list \<Rightarrow> string \<Rightarrow> error + fmval" where
  "addSidAt obj [] sid = Inr obj"
| "addSidAt obj [p] sid = addSidLeaf obj p sid"
| "addSidAt obj (p # q # ps) sid =
     (case getProp obj p of
        None \<Rightarrow> Inl TypeError
      | Some FNull \<Rightarrow> Inl TypeError
      | Some child \<Rightarrow>
          (case addSidAt child (q # ps) sid of
             Inl e \<Rightarrow> Inl e
           | Inr child' \<Rightarrow> Inr (setProp obj p child')))"

section \<open>Synchronizer (sync/obsidianLink.ts)\<close>

record TFile =
  file_path :: string
  file_basename :: string
  file_extension :: string

text \<open>
  The state of the plugin and of its host for one note: the API client with the remote
  store, the record cache, the settings, the front matter of the note as the metadata
  cache has it (\<open>metadataCache.getFileCache(file)?.frontmatter\<close>) and as the file has it
  (what \<open>processFrontMatter\<close> reads and writes; it rejects when the file cannot be
  written), and the random source with the number of draws made.
\<close>

record Plugin =
  plugin_api :: SingularityAPI
  plugin_cache :: TaskCache
  settings_vaultName :: string
  vault_name :: string
  metadataFrontmatter :: "(string \<times> fmval) list option"
  fileFrontmatter :: "(string \<times> fmval) list"
  frontmatterWritable :: bool
  random :: "nat \<Rightarrow> nat"
  draws :: nat

definition addSidToFieldUrl :: "TFile \<Rightarrow> string \<Rightarrow> string \<Rightarrow> Plugin \<Rightarrow> (error + unit) \<times> Plugin" where
  "addSidToFieldUrl file fieldName sid s =
     (if \<not> frontmatterWritable s then (Inl WriteFailed, s)
      else (let parts = pathParts fieldName
            in if parts = [] then (Inr (), s)
               else (case addSidAt (FObj (fileFrontmatter s)) parts sid of
                       Inl e \<Rightarrow> (Inl e, s)
                     | Inr (FObj entries) \<Rightarrow> (Inr (), s\<lparr>fileFrontmatter := entries\<rparr>)
                     | Inr _ \<Rightarrow> (Inr (), s))))"

text \<open>
  \<open>getOrCreateSingularityId\<close>. The argument \<open>url\<close> is what \<open>getFieldValue\<close> gave,
  cast to a string: \<open>url.match\<close> throws on undefined and null and is no function on a
  value that is no string.
\<close>

definition getOrCreateSingularityId ::
  "TFile \<Rightarrow> fmval option \<Rightarrow> string \<Rightarrow> Plugin \<Rightarrow> (error + string) \<times> Plugin" where
  "getOrCreateSingularityId file url fieldName s =
     (case url of
        Some (FStr u) \<Rightarrow>
          (case extractSidFromUrl u of
             Some existingSid \<Rightarrow> (Inr existingSid, s)
           | None \<Rightarrow>
               (let newId = generateUUID (random s) (draws s);
                    s1 = s\<lparr>draws := draws s + 31\<rparr>
                in case addSidToFieldUrl file fieldName newId s1 of
                     (Inl e, s2) \<Rightarrow> (Inl e, s2)
                   | (Inr _, s2) \<Rightarrow> (Inr newId, s2)))
      | _ \<Rightarrow> (Inl TypeError, s))"

text \<open>
  \<open>encodeURIComponent\<close> on UTF-8 bytes: the unreserved characters stay, every other byte
  becomes \<open>%XX\<close>.
\<close>

definition unreserved :: "char \<Rightarrow> bool" where
  "unreserved c =
     (c \<in> set ''ABCDEFGHIJKLMNOPQRSTUVWXYZabcdefghijklmnopqrstuvwxyz0123456789-_.!~*()''
      \<or> c = CHR 0x27)"

definition upperHexDigit :: "nat \<Rightarrow> char" where
  "upperHexDigit v = ''0123456789ABCDEF'' ! v"

definition encodeURIComponent :: "string \<Rightarrow> string" where
  "encodeURIComponent str =
     concat (map (\<lambda>c. if unreserved c then [c]
                       else [CHR ''%'', upperHexDigit (of_char c div 16),
                             upperHexDigit (of_char c mod 16)]) str)"

definition buildObsidianUrl :: "string \<Rightarrow> string \<Rightarrow> string" where
  "buildObsidianUrl vaultName filePath =
     ''obsidian://open?vault='' @ encodeURIComponent vaultName
       @ ''&file='' @ encodeURIComponent filePath"


text \<open>
  \<open>extractBaseUrl\<close>: null unless the link is of the \<open>obsidian://\<close> scheme; the link up
  to its first \<open>#sid=\<close> when that is found at a position above zero.
\<close>

definition extractBaseUrl :: "DeltaOp \<Rightarrow> string option" where
  "extractBaseUrl op =
     (case op_link op of
        None \<Rightarrow> None
      | Some url \<Rightarrow>
          if \<not> startsWith url ''obsidian://'' then None
          else (let hashIndex = indexOf url ''#sid=''
                in if hashIndex > 0 then Some (substring0 url hashIndex) else Some url))"



definition getVaultName :: "Plugin \<Rightarrow> string" where
  "getVaultName s = (if settings_vaultName s \<noteq> [] then settings_vaultName s else vault_name s)"

text \<open>
  The end of \<open>syncObsidianUrl\<close>: \<open>await api.updateTaskNote(taskId, deltaOps)\<close>, then
  \<open>this.plugin.cache.invalidateTask(taskId)\<close>.
\<close>

definition writeBack :: "string \<Rightarrow> DeltaOp list \<Rightarrow> Plugin \<Rightarrow> (error + unit) \<times> Plugin" where
  "writeBack taskId deltaOps s =
     (case api_updateTaskNote taskId deltaOps (plugin_api s) of
        (Inl e, a) \<Rightarrow> (Inl e, s\<lparr>plugin_api := a\<rparr>)
      | (Inr _, a) \<Rightarrow> (Inr (), s\<lparr>plugin_api := a, plugin_cache := invalidateTask taskId (plugin_cache s)\<rparr>))"

text \<open>
  The resolution of \<open>syncObsidianUrl\<close> on the parsed body of the task. A body that is
  no array: \<open>null.length\<close> throws in \<open>findObsidianLinkById\<close>; a boolean, a number
  and an object without \<open>length\<close> have no elements to scan, and the spread
  \<open>[...deltaOps]\<close> of \<open>updateObsidianLinkById\<close> throws, since they are not iterable.
  \<open>None\<close> as the body to write stands for "already synced".
\<close>

definition resolveLink ::
  "parsed \<Rightarrow> string \<Rightarrow> string \<Rightarrow> string \<Rightarrow> error + DeltaOp list option" where
  "resolveLink parsed noteTitle obsidianUrl singularityId =
     (case parsed of
        OpsArray currentOps \<Rightarrow>
          (case findObsidianLinkById currentOps singularityId of
             Some (index, eop) \<Rightarrow>
               if extractBaseUrl eop = Some obsidianUrl then Inr None
               else Inr (Some (updateObsidianLinkById currentOps noteTitle obsidianUrl singularityId))
           | None \<Rightarrow>
               (case findAnyObsidianLink currentOps of
                  Some (index, lop) \<Rightarrow>
                    (case addSidToLink currentOps index singularityId of
                       None \<Rightarrow> Inl TypeError
                     | Some deltaOps \<Rightarrow> Inr (Some deltaOps))
                | None \<Rightarrow>
                    Inr (Some (updateObsidianLinkById currentOps noteTitle obsidianUrl singularityId))))
      | NonArray _ \<Rightarrow> Inl TypeError)"

definition syncObsidianUrl :: "string \<Rightarrow> TFile \<Rightarrow> string \<Rightarrow> Plugin \<Rightarrow> (error + unit) \<times> Plugin" where
  "syncObsidianUrl taskId file fieldName s =
     (let obsidianUrl = buildObsidianUrl (getVaultName s) (file_path file);
          noteTitle = file_basename file;
          currentUrl = getFieldValue (metadataFrontmatter s) fieldName
      in case getOrCreateSingularityId file currentUrl fieldName s of
           (Inl e, s1) \<Rightarrow> (Inl e, s1)
         | (Inr singularityId, s1) \<Rightarrow>
             (case api_getTask taskId (plugin_api s1) of
                (Inl e, a2) \<Rightarrow> (Inl e, s1\<lparr>plugin_api := a2\<rparr>)
              | (Inr task, a2) \<Rightarrow>
                  if truthy_note (task_note task) then
                    (case api_getNote (the (task_note task)) a2 of
                       (Inl e, a3) \<Rightarrow> (Inl e, s1\<lparr>plugin_api := a3\<rparr>)
                     | (Inr content, a3) \<Rightarrow>
                         (case resolveLink (parseNoteContent content) noteTitle obsidianUrl
                                 singularityId of
                            Inl e \<Rightarrow> (Inl e, s1\<lparr>plugin_api := a3\<rparr>)
                          | Inr None \<Rightarrow> (Inr (), s1\<lparr>plugin_api := a3\<rparr>)
                          | Inr (Some deltaOps) \<Rightarrow> writeBack taskId deltaOps (s1\<lparr>plugin_api := a3\<rparr>)))
                  else writeBack taskId
                         (createInitialDelta noteTitle obsidianUrl singularityId)
                         (s1\<lparr>plugin_api := a2\<rparr>)))"



text \<open>The remote writes among the requests sent.\<close>

definition isWrite :: "request \<Rightarrow> bool" where
  "isWrite rq = (case rq of PATCH_task _ _ \<Rightarrow> True | _ \<Rightarrow> False)"

definition writes :: "Plugin \<Rightarrow> request list" where
  "writes s = filter isWrite (requests (plugin_api s))"



section \<open>Notions used in the statements about the synchronizer\<close>

text \<open>The state after some more requests were sent.\<close>

definition logged :: "Plugin \<Rightarrow> request list \<Rightarrow> Plugin" where
  "logged s rqs =
     s\<lparr>plugin_api := (plugin_api s)\<lparr>requests := requests (plugin_api s) @ rqs\<rparr>\<rparr>"


text \<open>
  The body of a task as a run reads it: the task has a note, the note is fetched and its
  content parses to a sequence.
\<close>

definition taskBody :: "Plugin \<Rightarrow> string \<Rightarrow> DeltaOp list option" where
  "taskBody s taskId =
     (case taskStore (plugin_api s) taskId of
        Some task \<Rightarrow>
          if truthy_note (task_note task) then
            (case noteStore (plugin_api s) (the (task_note task)) of
               Some content \<Rightarrow>
                 (case parseNoteContent content of
                    OpsArray ops \<Rightarrow> Some ops
                  | NonArray _ \<Rightarrow> None)
             | None \<Rightarrow> None)
          else None
      | None \<Rightarrow> None)"

text \<open>The identifier that a field of the note carries, as the metadata cache has the note.\<close>

definition fieldSid :: "Plugin \<Rightarrow> string \<Rightarrow> string option" where
  "fieldSid s fieldName =
     (case getFieldValue (metadataFrontmatter s) fieldName of
        Some (FStr u) \<Rightarrow> extractSidFromUrl u
      | _ \<Rightarrow> None)"

definition noteUrl :: "Plugin \<Rightarrow> TFile \<Rightarrow> string" where
  "noteUrl s file = buildObsidianUrl (getVaultName s) (file_path file)"





section \<open>Sample data for the synchronizer\<close>

definition sample_file :: TFile where
  "sample_file = \<lparr>file_path = ''New.md'', file_basename = ''New'', file_extension = ''md''\<rparr>"

text \<open>
  A note \<open>New.md\<close> in the vault \<open>V\<close> whose field \<open>task\<close> refers to the task
  \<open>T-1\<close>, with or without an identifier, and a remote store in which the task has the
  note \<open>N-T-1\<close> with the given content.
\<close>

definition sample_plugin :: "string \<Rightarrow> Content \<Rightarrow> Plugin" where
  "sample_plugin reference content =
     \<lparr>plugin_api =
        \<lparr>token = ''secret'',
         taskStore = (\<lambda>i. if i = ''T-1''
                           then Some ((sample_task 0)\<lparr>task_note := Some ''N-T-1''\<rparr>) else None),
         noteStore = (\<lambda>n. if n = ''N-T-1'' then Some content else None),
         kanbanStatuses = (\<lambda>_. None),
         kanbanTaskStatuses = (\<lambda>_. None),
         tagCatalog = None,
         requests = []\<rparr>,
      plugin_cache = warm_cache,
      settings_vaultName = ''V'',
      vault_name = ''Vault'',
      metadataFrontmatter = Some [(''title'', FStr ''New''), (''task'', FStr reference)],
      fileFrontmatter = [(''title'', FStr ''New''), (''task'', FStr reference)],
      frontmatterWritable = True,
      random = (\<lambda>k. 7 * k + 3),
      draws = 0\<rparr>"

definition sample_reference :: string where
  "sample_reference = ''singularityapp://?&page=any&id=T-1#sid=ab12''"

text \<open>A body with a link to the note under its former path, written before links had identifiers.\<close>

definition legacy_body :: "DeltaOp list" where
  "legacy_body =
     [\<lparr>insert_text = ''Agenda'', attributes = Some \<lparr>link = None, formatting = [(''bold'', ''true'')]\<rparr>\<rparr>,
      newline_op,
      \<lparr>insert_text = linkText ''Old'',
        attributes = Some \<lparr>link = Some ''obsidian://open?vault=V&file=Old.md'', formatting = []\<rparr>\<rparr>,
      newline_op]"

definition migrated_body :: "DeltaOp list" where
  "migrated_body =
     [\<lparr>insert_text = ''Agenda'', attributes = Some \<lparr>link = None, formatting = [(''bold'', ''true'')]\<rparr>\<rparr>,
      newline_op,
      \<lparr>insert_text = linkText ''Old'',
        attributes = Some \<lparr>link = Some ''obsidian://open?vault=V&file=Old.md#sid=ab12'',
                           formatting = []\<rparr>\<rparr>,
      newline_op]"


section \<open>Notions used in the statements about the identity scheme\<close>

text \<open>
  A match of \<open>/#sid=([a-f0-9-]+)/i\<close> at the start of a string.
\<close>

definition matchesAt :: "string \<Rightarrow> bool" where
  "matchesAt s = (startsWith_ci s ''#sid='' \<and> takeWhile isSidChar (drop 5 s) \<noteq> [])"

text \<open>
  A string follows a template when it has a hexadecimal digit (lower case) for every
  \<open>x\<close>, one of 8, 9, a, b for every \<open>y\<close>, and the character of the template
  elsewhere. The format of a version-4 UUID is the template of \<open>generateUUID\<close>: the
  version digit 4 and a variant digit 8, 9, a or b at their places.
\<close>

fun followsTemplate :: "string \<Rightarrow> string \<Rightarrow> bool" where
  "followsTemplate [] [] = True"
| "followsTemplate (t # ts) (c # cs) =
     ((if t = CHR ''x'' then c \<in> set ''0123456789abcdef''
       else if t = CHR ''y'' then c \<in> set ''89ab''
       else c = t)
      \<and> followsTemplate ts cs)"
| "followsTemplate _ _ = False"

definition isUUIDv4 :: "string \<Rightarrow> bool" where
  "isUUIDv4 s = followsTemplate ''xxxxxxxx-xxxx-4xxx-yxxx-xxxxxxxxxxxx'' s"

text \<open>
  A field path that leads through mappings by key and through sequences by index only:
  each part reads an own entry of a mapping by its key, or an element of a sequence by
  its index. These are the paths that \<open>findAllSingularityUrls\<close> makes for a front
  matter whose keys have no dot and no bracket.
\<close>

fun plainPath :: "fmval \<Rightarrow> part list \<Rightarrow> bool" where
  "plainPath v [] = True"
| "plainPath (FObj kvs) (Key k # ps) =
     (case lookup kvs k of Some c \<Rightarrow> plainPath c ps | None \<Rightarrow> False)"
| "plainPath (FArr xs) (Idx n # ps) = (n < length xs \<and> plainPath (xs ! n) ps)"
| "plainPath _ _ = False"

text \<open>The field of the note's file holds the string \<open>u\<close>, at the end of a plain path.\<close>

definition stored :: "(string \<times> fmval) list \<Rightarrow> string \<Rightarrow> string \<Rightarrow> bool" where
  "stored fm fieldName u =
     (pathParts fieldName \<noteq> [] \<and> plainPath (FObj fm) (pathParts fieldName)
      \<and> getFieldValue (Some fm) fieldName = Some (FStr u))"

text \<open>
  The reference of the sample note without an identifier, and with a fragment that the
  regular expression of \<open>extractSidFromUrl\<close> does not match.
\<close>

definition plain_reference :: string where
  "plain_reference = ''singularityapp://?&page=any&id=T-1''"

definition odd_reference :: string where
  "odd_reference = ''singularityapp://?&page=any&id=T-1#sid=xyz''"

section \<open>Notions used in the statements about a first synchronization\<close>


section \<open>The scanning loop\<close>

lemma scan_Some:
  "scan P ops i = Some (j, op) \<Longrightarrow>
     i \<le> j \<and> j - i < length ops \<and> op = ops ! (j - i) \<and> P op \<and> (\<forall>k < j - i. \<not> P (ops ! k))"
proof (induction ops arbitrary: i)
  case Nil
  then show ?case by simp
next
  case (Cons a ops)
  show ?case
  proof (cases "P a")
    case True
    with Cons.prems show ?thesis by simp
  next
    case False
    with Cons.prems have s: "scan P ops (Suc i) = Some (j, op)" by simp
    from Cons.IH [OF s] have ih: "Suc i \<le> j" "j - Suc i < length ops" "op = ops ! (j - Suc i)" "P op"
      "\<forall>k < j - Suc i. \<not> P (ops ! k)" by auto
    have e: "j - i = Suc (j - Suc i)" using ih(1) by arith
    show ?thesis using ih False unfolding e
      by (auto simp: nth_Cons split: nat.splits)
  qed
qed

lemma scan_None: "scan P ops i = None \<longleftrightarrow> (\<forall>op \<in> set ops. \<not> P op)"
  by (induction ops arbitrary: i) auto

lemma scan_first:
  "k < length ops \<Longrightarrow> P (ops ! k) \<Longrightarrow> (\<forall>j < k. \<not> P (ops ! j)) \<Longrightarrow>
     scan P ops i = Some (i + k, ops ! k)"
proof (induction ops arbitrary: i k)
  case Nil
  then show ?case by simp
next
  case (Cons a ops)
  show ?case
  proof (cases k)
    case 0
    with Cons.prems show ?thesis by simp
  next
    case (Suc k')
    have na: "\<not> P a" using Cons.prems(3) Suc by auto
    have "scan P ops (Suc i) = Some (Suc i + k', ops ! k')"
      using Cons.prems Suc by (intro Cons.IH) auto
    with na Suc show ?thesis by simp
  qed
qed

lemma isOnlyNewline_eq: "isOnlyNewline op \<longleftrightarrow> op = newline_op"
  by (cases op) (auto simp: isOnlyNewline_def newline_op_def)

section \<open>Appending a link (C3)\<close>

text \<open>
  C3. When no operation of the caller's array carries \<open>#sid=<singularityId>\<close> in its
  link, \<open>updateObsidianLinkById\<close> returns a fresh array: the caller's operations,
  without the last one when that is a bare newline, then one separating newline when
  anything is left, then the new link operation (text \<open>Obsidian: "<title>"\<close>, link
  \<open>obsidianUrl + '#sid=' + singularityId\<close>) and a newline. The returned array is not
  the caller's, and every array that existed before the call, the caller's among them,
  is unchanged.
\<close>

theorem upsert_appends:
  assumes a: "deltaOps < length h"
    and n: "findObsidianLinkById (h ! deltaOps) singularityId = None"
  shows "case updateObsidianLinkById_store h deltaOps noteTitle obsidianUrl singularityId of
           (h', r) \<Rightarrow>
             (let ops = h ! deltaOps;
                  stripped = (if ops \<noteq> [] \<and> last ops = newline_op then butlast ops else ops)
              in h' ! r =
                   stripped @ (if stripped \<noteq> [] then [newline_op] else []) @
                   [\<lparr>insert_text = linkText noteTitle,
                     attributes = Some \<lparr>link = Some (obsidianUrl @ ''#sid='' @ singularityId),
                                        formatting = []\<rparr>\<rparr>,
                    newline_op]
                 \<and> r \<noteq> deltaOps \<and> take (length h) h' = h)"
  using a n
  by (simp add: updateObsidianLinkById_store_def spread_def array_pop_def array_push_def
      nth_append createNoteLinkOps_def isOnlyNewline_eq SID_FRAGMENT_def Let_def)

theorem upsert_appends_witness:
  "(0::nat) < length [[\<lparr>insert_text = ''text'', attributes = None\<rparr>, newline_op]]
   \<and> findObsidianLinkById
        ([[\<lparr>insert_text = ''text'', attributes = None\<rparr>, newline_op]] ! 0) ''ab12'' = None
   \<and> updateObsidianLinkById_store
        [[\<lparr>insert_text = ''text'', attributes = None\<rparr>, newline_op]] 0
        ''Note'' ''obsidian://open?vault=V&file=Note.md'' ''ab12''
      = ([[\<lparr>insert_text = ''text'', attributes = None\<rparr>, newline_op],
          [\<lparr>insert_text = ''text'', attributes = None\<rparr>, newline_op,
           \<lparr>insert_text = linkText ''Note'',
             attributes = Some \<lparr>link = Some ''obsidian://open?vault=V&file=Note.md#sid=ab12'',
                                formatting = []\<rparr>\<rparr>,
           newline_op]], 1)"
proof -
  let ?h = "[[\<lparr>insert_text = ''text'', attributes = None\<rparr>, newline_op]]"
  have h1: "(0::nat) < length ?h" by simp
  have h2: "findObsidianLinkById (?h ! 0) ''ab12'' = None"
    by (simp add: findObsidianLinkById_def carriesSid_def op_link_def newline_op_def)
  have r: "updateObsidianLinkById_store ?h 0 ''Note'' ''obsidian://open?vault=V&file=Note.md'' ''ab12''
      = ([[\<lparr>insert_text = ''text'', attributes = None\<rparr>, newline_op],
          [\<lparr>insert_text = ''text'', attributes = None\<rparr>, newline_op,
           \<lparr>insert_text = linkText ''Note'',
             attributes = Some \<lparr>link = Some ''obsidian://open?vault=V&file=Note.md#sid=ab12'',
                                formatting = []\<rparr>\<rparr>,
           newline_op]], 1)"
    by (simp add: updateObsidianLinkById_store_def spread_def h2 [simplified] Let_def
        array_push_def array_pop_def isOnlyNewline_eq createNoteLinkOps_def SID_FRAGMENT_def)
  from upsert_appends [OF h1 h2, of "''Note''" "''obsidian://open?vault=V&file=Note.md''"] h1 h2 r
  show ?thesis by - (intro conjI, assumption+)
qed

section \<open>Updating a link in place (C4)\<close>

text \<open>
  C4. When \<open>findObsidianLinkById\<close> finds an operation that carries the identifier,
  \<open>updateObsidianLinkById\<close> returns a sequence of the same length in which that
  operation has the new text and the link \<open>obsidianUrl + '#sid=' + singularityId\<close>
  and keeps its other attributes, and every other operation is the operation of the
  input at the same position.
\<close>

theorem update_frame:
  assumes f: "findObsidianLinkById ops singularityId = Some (i, eop)"
  shows "(let r = updateObsidianLinkById ops noteTitle obsidianUrl singularityId
          in length r = length ops \<and> i < length ops \<and> eop = ops ! i
             \<and> (\<forall>j < length ops. j \<noteq> i \<longrightarrow> r ! j = ops ! j)
             \<and> insert_text (r ! i) = linkText noteTitle
             \<and> op_link (r ! i) = Some (obsidianUrl @ ''#sid='' @ singularityId)
             \<and> map_option formatting (attributes (r ! i))
                 = map_option formatting (attributes (ops ! i)))"
proof -
  from f have s: "scan (carriesSid singularityId) ops 0 = Some (i, eop)"
    by (simp add: findObsidianLinkById_def)
  from scan_Some [OF s] have i: "i < length ops" and e: "eop = ops ! i"
    and c: "carriesSid singularityId eop"
    by auto
  from c obtain a where at: "attributes eop = Some a"
    by (auto simp: carriesSid_def op_link_def split: option.splits)
  show ?thesis using f i e at
    by (simp add: updateObsidianLinkById_def updateObsidianLinkById_store_def spread_def
        array_set_def Let_def op_link_def withLink_def SID_FRAGMENT_def)
qed

theorem update_frame_witness:
  "findObsidianLinkById
     [\<lparr>insert_text = ''intro'', attributes = Some \<lparr>link = None, formatting = [(''bold'', ''true'')]\<rparr>\<rparr>,
      \<lparr>insert_text = ''Old'', attributes = Some \<lparr>link = Some ''obsidian://open?file=Old#sid=ab12'',
                                                  formatting = [(''italic'', ''true'')]\<rparr>\<rparr>,
      newline_op] ''ab12''
   = Some (1, \<lparr>insert_text = ''Old'', attributes = Some \<lparr>link = Some ''obsidian://open?file=Old#sid=ab12'',
                                                  formatting = [(''italic'', ''true'')]\<rparr>\<rparr>)
   \<and> updateObsidianLinkById
     [\<lparr>insert_text = ''intro'', attributes = Some \<lparr>link = None, formatting = [(''bold'', ''true'')]\<rparr>\<rparr>,
      \<lparr>insert_text = ''Old'', attributes = Some \<lparr>link = Some ''obsidian://open?file=Old#sid=ab12'',
                                                  formatting = [(''italic'', ''true'')]\<rparr>\<rparr>,
      newline_op] ''New'' ''obsidian://open?file=New'' ''ab12''
   = [\<lparr>insert_text = ''intro'', attributes = Some \<lparr>link = None, formatting = [(''bold'', ''true'')]\<rparr>\<rparr>,
      \<lparr>insert_text = linkText ''New'',
        attributes = Some \<lparr>link = Some ''obsidian://open?file=New#sid=ab12'',
                           formatting = [(''italic'', ''true'')]\<rparr>\<rparr>,
      newline_op]"
proof -
  let ?ops = "[\<lparr>insert_text = ''intro'', attributes = Some \<lparr>link = None, formatting = [(''bold'', ''true'')]\<rparr>\<rparr>,
      \<lparr>insert_text = ''Old'', attributes = Some \<lparr>link = Some ''obsidian://open?file=Old#sid=ab12'',
                                                  formatting = [(''italic'', ''true'')]\<rparr>\<rparr>,
      newline_op]"
  have f: "findObsidianLinkById ?ops ''ab12''
            = Some (1, \<lparr>insert_text = ''Old'', attributes = Some \<lparr>link = Some ''obsidian://open?file=Old#sid=ab12'',
                                                  formatting = [(''italic'', ''true'')]\<rparr>\<rparr>)"
    by (simp add: findObsidianLinkById_def carriesSid_def op_link_def SID_FRAGMENT_def startsWith_def)
  have r: "updateObsidianLinkById ?ops ''New'' ''obsidian://open?file=New'' ''ab12''
   = [\<lparr>insert_text = ''intro'', attributes = Some \<lparr>link = None, formatting = [(''bold'', ''true'')]\<rparr>\<rparr>,
      \<lparr>insert_text = linkText ''New'',
        attributes = Some \<lparr>link = Some ''obsidian://open?file=New#sid=ab12'',
                           formatting = [(''italic'', ''true'')]\<rparr>\<rparr>,
      newline_op]"
    by (simp add: updateObsidianLinkById_def updateObsidianLinkById_store_def spread_def f
        array_set_def withLink_def SID_FRAGMENT_def)
  from update_frame [OF f, of "''New''" "''obsidian://open?file=New''"] f r
  show ?thesis by - (intro conjI, assumption+)
qed

section \<open>The record cache: what one call does\<close>

lemma fresh_iff:
  "fresh c now e \<longleftrightarrow> (case e of Some x \<Rightarrow> \<not> isExpired c now (timestamp x) | None \<Rightarrow> False)"
  by (simp add: fresh_def)

lemma getKanbanStatuses_res:
  assumes "token api \<noteq> []"
  shows "\<exists>c'. getKanbanStatuses now pid (c, api) =
           ((case scopedStatuses c api now pid of None \<Rightarrow> Inl RequestFailed | Some ps \<Rightarrow> Inr ps), c',
            api\<lparr>requests := requests api @ (if fresh c now (kanbanCache c pid) then [] else [GET_kanban_status pid])\<rparr>)
         \<and> taskCache c' = taskCache c \<and> language c' = language c \<and> cacheTTL c' = cacheTTL c
         \<and> tagsCache c' = tagsCache c"
  using assms
  by (auto simp: getKanbanStatuses_def scopedStatuses_def api_getKanbanStatuses_def request_def
      fresh_def split: option.splits)

lemma getTags_res:
  assumes "token api \<noteq> []"
  shows "\<exists>c'. getTags now (c, api) =
           ((case catalog c api now of None \<Rightarrow> Inl RequestFailed | Some ps \<Rightarrow> Inr ps), c',
            api\<lparr>requests := requests api @ (if fresh c now (tagsCache c) then [] else [GET_tag])\<rparr>)
         \<and> taskCache c' = taskCache c \<and> language c' = language c"
  using assms
  by (auto simp: getTags_def catalog_def api_getTags_def request_def fresh_def
      split: option.splits)

lemma api_getTask_ok:
  "token api \<noteq> [] \<Longrightarrow> taskStore api taskId = Some task \<Longrightarrow>
     api_getTask taskId api = (Inr task, api\<lparr>requests := requests api @ [GET_task taskId]\<rparr>)"
  by (simp add: api_getTask_def request_def)

lemma api_getTaskKanbanStatus_res:
  "token api \<noteq> [] \<Longrightarrow>
     api_getTaskKanbanStatus taskId api =
       ((case kanbanTaskStatuses api taskId of None \<Rightarrow> Inl RequestFailed | Some a \<Rightarrow> Inr a),
        api\<lparr>requests := requests api @ [GET_kanban_task_status taskId]\<rparr>)"
  by (simp add: api_getTaskKanbanStatus_def request_def)

lemma getTagsByIds_res:
  assumes "token api \<noteq> []"
  shows "\<exists>c'. getTagsByIds now ids (c, api) =
           ((case catalog c api now of None \<Rightarrow> Inl RequestFailed
             | Some ts \<Rightarrow> Inr (filter (\<lambda>tag. tag_id tag \<in> set ids) ts)), c',
            api\<lparr>requests := requests api @ (if fresh c now (tagsCache c) then [] else [GET_tag])\<rparr>)
         \<and> taskCache c' = taskCache c \<and> language c' = language c"
proof -
  from getTags_res [OF assms, of now c] obtain c' where
    g: "getTags now (c, api) =
           ((case catalog c api now of None \<Rightarrow> Inl RequestFailed | Some ps \<Rightarrow> Inr ps), c',
            api\<lparr>requests := requests api @ (if fresh c now (tagsCache c) then [] else [GET_tag])\<rparr>)"
    and k: "taskCache c' = taskCache c" "language c' = language c" by blast
  show ?thesis using g k by (auto simp: getTagsByIds_def split: option.splits)
qed

lemma getTaskData_miss:
  assumes miss: "\<not> fresh c now (taskCache c taskId)"
    and tok: "token api \<noteq> []"
    and t: "taskStore api taskId = Some task"
  shows "\<exists>c'. taskCache c' = taskCache c \<and> language c' = language c \<and>
     getTaskData LOCALES now taskId (c, api) =
       (map_sum id (enriched (LOCALES (language c)) task) (fetched c api now taskId task),
        (case fetched c api now taskId task of
           Inl e \<Rightarrow> c'
         | Inr x \<Rightarrow> c'\<lparr>taskCache := (taskCache c)
                     (taskId := Some \<lparr>data = enriched (LOCALES (language c)) task x,
                                      timestamp = now\<rparr>)\<rparr>),
        api\<lparr>requests := requests api @ fetches c now taskId (task_projectId task)\<rparr>)"
proof -
  define api1 where "api1 = api\<lparr>requests := requests api @ [GET_task taskId]\<rparr>"
  define api2 where "api2 = api1\<lparr>requests := requests api1 @ [GET_kanban_task_status taskId]\<rparr>"
  define api3 where "api3 = api2\<lparr>requests := requests api2 @
     (if fresh c now (kanbanCache c (task_projectId task)) then []
      else [GET_kanban_status (task_projectId task)])\<rparr>"
  define tagIds where "tagIds = (case task_tags task of None \<Rightarrow> [] | Some i \<Rightarrow> i)"
  have tok1: "token api1 \<noteq> []" and tok2: "token api2 \<noteq> []" and tok3: "token api3 \<noteq> []"
    using tok by (simp_all add: api1_def api2_def api3_def)
  have same: "kanbanTaskStatuses api1 = kanbanTaskStatuses api"
    "kanbanStatuses api2 = kanbanStatuses api" "tagCatalog api3 = tagCatalog api"
    by (simp_all add: api1_def api2_def api3_def)
  from getKanbanStatuses_res [OF tok2, of now "task_projectId task" c] obtain c2 where
    k: "getKanbanStatuses now (task_projectId task) (c, api2) =
           ((case scopedStatuses c api2 now (task_projectId task) of
               None \<Rightarrow> Inl RequestFailed | Some ps \<Rightarrow> Inr ps), c2, api3)"
    and k2: "taskCache c2 = taskCache c" "language c2 = language c" "cacheTTL c2 = cacheTTL c"
       "tagsCache c2 = tagsCache c"
    unfolding api3_def by blast
  from getTagsByIds_res [OF tok3, of now tagIds c2] obtain c3 where
    g: "getTagsByIds now tagIds (c2, api3) =
           ((case catalog c2 api3 now of None \<Rightarrow> Inl RequestFailed
             | Some ts \<Rightarrow> Inr (filter (\<lambda>tag. tag_id tag \<in> set tagIds) ts)), c3,
            api3\<lparr>requests := requests api3 @ (if fresh c2 now (tagsCache c2) then [] else [GET_tag])\<rparr>)"
    and g2: "taskCache c3 = taskCache c2" "language c3 = language c2" by blast
  have sc: "scopedStatuses c api2 now (task_projectId task)
              = scopedStatuses c api now (task_projectId task)"
    by (simp add: scopedStatuses_def same)
  have fr: "fresh c2 now e = fresh c now e" for e :: "'z CacheEntry option"
    by (simp add: fresh_def k2 isExpired_def cong: option.case_cong)
  have ca: "catalog c2 api3 now = catalog c api now"
    by (simp add: catalog_def k2 same fr)
  have lg: "api3\<lparr>requests := requests api3 @ (if fresh c2 now (tagsCache c2) then [] else [GET_tag])\<rparr>
      = api\<lparr>requests := requests api @ fetches c now taskId (task_projectId task)\<rparr>"
    by (simp add: api3_def api2_def api1_def fetches_def fr k2)
  have m: "\<not> (case taskCache c taskId of
               Some e \<Rightarrow> \<not> isExpired c now (timestamp e) | None \<Rightarrow> False)"
    using miss by (simp add: fresh_def)
  have "getTaskData LOCALES now taskId (c, api) =
       (map_sum id (enriched (LOCALES (language c)) task) (fetched c api now taskId task),
        (case fetched c api now taskId task of
           Inl e \<Rightarrow> c3
         | Inr x \<Rightarrow> c3\<lparr>taskCache := (taskCache c)
                     (taskId := Some \<lparr>data = enriched (LOCALES (language c)) task x,
                                      timestamp = now\<rparr>)\<rparr>),
        api\<lparr>requests := requests api @ fetches c now taskId (task_projectId task)\<rparr>)"
    unfolding getTaskData_def fetched_def
    apply (simp only: prod.case m if_False api_getTask_ok [OF tok t] sum.case
        api_getTaskKanbanStatus_res [OF tok1] api1_def [symmetric] api2_def [symmetric]
        tagIds_def [symmetric] Let_def k g same sc ca lg)
    apply (simp add: g2 k2 enriched_def split: sum.splits prod.splits)
    done
  moreover have "taskCache c3 = taskCache c" "language c3 = language c" using g2 k2 by simp_all
  ultimately show ?thesis by blast
qed

lemma getTaskData_hit:
  assumes "fresh c now (taskCache c taskId)"
  shows "getTaskData LOCALES now taskId (c, api) = (Inr (data (the (taskCache c taskId))), c, api)"
  using assms by (simp add: getTaskData_def fresh_def)

lemma getTaskData_notask:
  assumes miss: "\<not> fresh c now (taskCache c taskId)"
    and t: "token api = [] \<or> taskStore api taskId = None"
  shows "\<exists>e api'. getTaskData LOCALES now taskId (c, api) = (Inl e, c, api')"
  using assms by (auto simp: getTaskData_def fresh_def api_getTask_def request_def)


lemma getTaskData_miss_ok:
  assumes miss: "\<not> fresh c now (taskCache c taskId)"
    and tok: "token api \<noteq> []"
    and t: "taskStore api taskId = Some task"
    and a: "kanbanTaskStatuses api taskId = Some tks"
    and p: "scopedStatuses c api now (task_projectId task) = Some ps"
    and g: "catalog c api now = Some ts"
  shows "\<exists>td c' api'. getTaskData LOCALES now taskId (c, api) = (Inr td, c', api')
           \<and> td_status td = determineStatus (LOCALES (language c)) task tks ps
           \<and> taskCache c' taskId = Some \<lparr>data = td, timestamp = now\<rparr>"
proof -
  have f: "fetched c api now taskId task =
      Inr (tks, ps, filter (\<lambda>tag. tag_id tag \<in> set (case task_tags task of None \<Rightarrow> [] | Some i \<Rightarrow> i)) ts)"
    by (simp add: fetched_def a p g all3_def)
  from getTaskData_miss [OF miss tok t, of LOCALES] show ?thesis
    unfolding f by (auto simp: enriched_def)
qed

lemma determineStatus_precedence:
  "determineStatus locale task tks ps = precedence locale task tks ps"
  by (cases tks)
     (simp_all add: determineStatus_def precedence_def asStatus_def Let_def split: option.splits)

lemma getTaskData_expired_log:
  assumes miss: "\<not> fresh c now (taskCache c taskId)"
    and tok: "token api \<noteq> []"
  shows "\<exists>r c' rest. getTaskData LOCALES now taskId (c, api) =
           (r, c', api\<lparr>requests := requests api @ GET_task taskId # rest\<rparr>)"
proof (cases "taskStore api taskId")
  case None
  with miss tok have "getTaskData LOCALES now taskId (c, api) =
      (Inl RequestFailed, c, api\<lparr>requests := requests api @ GET_task taskId # []\<rparr>)"
    by (simp add: getTaskData_def fresh_def api_getTask_def request_def)
  then show ?thesis by blast
next
  case (Some task)
  from getTaskData_miss [OF miss tok Some, of LOCALES] show ?thesis
    by (auto simp: fetches_def)
qed

section \<open>Status resolution (C2)\<close>

text \<open>
  C2, as amended. For a task that \<open>getTaskData\<close> fetches (the per-task entry is missing
  or expired and the fetches succeed), the status is: the fixed cancelled label of the
  locale when the task is cancelled, whatever its status assignment; else the fixed done
  label of the locale when it is completed; else, when it has a status assignment, the
  status of the scoped set with the identifier of the first assignment; else the first
  status of the scoped set whose identifier ends with \<open>-TODO\<close>. The copy in
  \<open>src/cache/taskCache.ts\<close> does the same with its own fixed labels, except for a
  completed task: it takes the first status of the scoped set whose identifier ends with
  \<open>-DONE\<close>, and the fixed done label only when there is none.
\<close>

theorem status_precedence:
  assumes miss: "\<not> fresh c now (taskCache c taskId)"
    and tok: "token api \<noteq> []"
    and t: "taskStore api taskId = Some task"
    and a: "kanbanTaskStatuses api taskId = Some tks"
    and p: "scopedStatuses c api now (task_projectId task) = Some ps"
    and g: "catalog c api now = Some ts"
  shows "(\<exists>td c' api'. getTaskData LOCALES now taskId (c, api) = (Inr td, c', api')
           \<and> td_status td = precedence (LOCALES (language c)) task tks ps)
       \<and> determineStatus_unlocalized task tks ps =
           (if task_checked task = 1
            then (case find (\<lambda>s. endsWith (ks_id s) ''-DONE'') ps of
                    Some s \<Rightarrow> Some (asStatus s)
                  | None \<Rightarrow> Some \<lparr>status_id = ''DONE'', status_name = label_done_ru\<rparr>)
            else precedence \<lparr>statusCancelled = label_cancelled_ru, statusDone = label_done_ru\<rparr>
                   task tks ps)"
proof
  from getTaskData_miss_ok [OF miss tok t a p g, of LOCALES]
  show "\<exists>td c' api'. getTaskData LOCALES now taskId (c, api) = (Inr td, c', api')
           \<and> td_status td = precedence (LOCALES (language c)) task tks ps"
    by (auto simp: determineStatus_precedence)
  show "determineStatus_unlocalized task tks ps =
           (if task_checked task = 1
            then (case find (\<lambda>s. endsWith (ks_id s) ''-DONE'') ps of
                    Some s \<Rightarrow> Some (asStatus s)
                  | None \<Rightarrow> Some \<lparr>status_id = ''DONE'', status_name = label_done_ru\<rparr>)
            else precedence \<lparr>statusCancelled = label_cancelled_ru, statusDone = label_done_ru\<rparr>
                   task tks ps)"
    by (cases tks)
       (simp_all add: determineStatus_unlocalized_def precedence_def asStatus_def Let_def
          split: option.splits)
qed

text \<open>
  A cancelled task that is assigned to the status "Doing" resolves to the cancelled
  label.
\<close>

theorem status_precedence_witness:
  "\<not> fresh sample_cache 0 (taskCache sample_cache ''T-1'')
   \<and> token (sample_api 2 (Some [\<lparr>tks_taskId = ''T-1'', tks_statusId = ''KS-P-1-IN-PROGRESS''\<rparr>])
         sample_statuses) \<noteq> []
   \<and> fst (getTaskData sample_locales 0 ''T-1''
        (sample_cache,
         sample_api 2 (Some [\<lparr>tks_taskId = ''T-1'', tks_statusId = ''KS-P-1-IN-PROGRESS''\<rparr>])
           sample_statuses))
     = Inr \<lparr>td_id = ''T-1'', td_title = ''Write report'', td_projectId = ''P-1'',
            td_status = Some \<lparr>status_id = ''CANCELLED'', status_name = ''Cancelled''\<rparr>,
            td_tags = [\<lparr>tag_id = ''A-1'', tag_title = ''work'', tag_color = None,
                        tag_parent = None\<rparr>],
            td_noteId = None, td_isCompleted = False, td_isCancelled = True\<rparr>"
proof -
  let ?tks = "[\<lparr>tks_taskId = ''T-1'', tks_statusId = ''KS-P-1-IN-PROGRESS''\<rparr>]"
  let ?api = "sample_api 2 (Some ?tks) sample_statuses"
  have miss: "\<not> fresh sample_cache 0 (taskCache sample_cache ''T-1'')"
    by (simp add: fresh_def sample_cache_def)
  have tok: "token ?api \<noteq> []" by (simp add: sample_api_def)
  have t: "taskStore ?api ''T-1'' = Some (sample_task 2)" by (simp add: sample_api_def)
  have a: "kanbanTaskStatuses ?api ''T-1'' = Some ?tks" by (simp add: sample_api_def)
  have p: "scopedStatuses sample_cache ?api 0 (task_projectId (sample_task 2)) = Some sample_statuses"
    by (simp add: scopedStatuses_def fresh_def sample_cache_def sample_api_def sample_task_def)
  have g: "catalog sample_cache ?api 0 = Some sample_tags"
    by (simp add: catalog_def fresh_def sample_cache_def sample_api_def)
  have r: "fst (getTaskData sample_locales 0 ''T-1'' (sample_cache, ?api))
     = Inr \<lparr>td_id = ''T-1'', td_title = ''Write report'', td_projectId = ''P-1'',
            td_status = Some \<lparr>status_id = ''CANCELLED'', status_name = ''Cancelled''\<rparr>,
            td_tags = [\<lparr>tag_id = ''A-1'', tag_title = ''work'', tag_color = None,
                        tag_parent = None\<rparr>],
            td_noteId = None, td_isCompleted = False, td_isCancelled = True\<rparr>"
    by (simp add: getTaskData_def sample_cache_def sample_api_def sample_task_def
        api_getTask_def api_getTaskKanbanStatus_def request_def getKanbanStatuses_def
        api_getKanbanStatuses_def getTagsByIds_def getTags_def api_getTags_def all3_def
        determineStatus_def sample_locales_def sample_tags_def Let_def)
  from status_precedence [OF miss tok t a p g, of sample_locales] miss tok r
  show ?thesis by - (intro conjI, assumption+)
qed

text \<open>
  The claim as stated fails on \<open>src/cache/taskCache.ts\<close>: a completed task without an
  assignment, in a project that has a status \<open>KS-P-1-DONE\<close> named "Shipped", resolves to
  that status and not to the fixed done label.
\<close>

theorem status_precedence_counterexample:
  "determineStatus_unlocalized (sample_task 1) [] sample_statuses
     = Some \<lparr>status_id = ''KS-P-1-DONE'', status_name = ''Shipped''\<rparr>
   \<and> determineStatus_unlocalized (sample_task 1) [] sample_statuses
     \<noteq> Some \<lparr>status_id = ''DONE'', status_name = label_done_ru\<rparr>"
  by (simp add: determineStatus_unlocalized_def sample_task_def sample_statuses_def
      endsWith_def Let_def)

section \<open>Unresolvable status (C10)\<close>

text \<open>
  C10. For an active task (neither completed nor cancelled) that \<open>getTaskData\<close>
  fetches: when the identifier of its first status assignment does not occur in the
  scoped status set, or when it has no assignment and no status of the scoped set has an
  identifier ending with \<open>-TODO\<close>, the call succeeds, the status of the record is null
  and the record is cached. The copy in \<open>src/cache/taskCache.ts\<close> gives null as well.
\<close>

theorem status_null:
  assumes miss: "\<not> fresh c now (taskCache c taskId)"
    and tok: "token api \<noteq> []"
    and t: "taskStore api taskId = Some task"
    and a: "kanbanTaskStatuses api taskId = Some tks"
    and p: "scopedStatuses c api now (task_projectId task) = Some ps"
    and g: "catalog c api now = Some ts"
    and active: "task_checked task \<noteq> 1" "task_checked task \<noteq> 2"
    and un: "(tks \<noteq> [] \<and> tks_statusId (hd tks) \<notin> ks_id ` set ps)
             \<or> (tks = [] \<and> (\<forall>s \<in> set ps. \<not> endsWith (ks_id s) ''-TODO''))"
  shows "(\<exists>td c' api'. getTaskData LOCALES now taskId (c, api) = (Inr td, c', api')
           \<and> td_status td = None \<and> taskCache c' taskId = Some \<lparr>data = td, timestamp = now\<rparr>)
         \<and> determineStatus_unlocalized task tks ps = None"
proof -
  have f1: "find (\<lambda>s. ks_id s = tks_statusId (hd tks)) ps = None"
    if "tks_statusId (hd tks) \<notin> ks_id ` set ps"
    using that by (force simp: find_None_iff image_iff)
  have f2: "find (\<lambda>s. endsWith (ks_id s) ''-TODO'') ps = None"
    if "\<forall>s \<in> set ps. \<not> endsWith (ks_id s) ''-TODO''"
    using that by (auto simp: find_None_iff)
  have d: "determineStatus (LOCALES (language c)) task tks ps = None"
    using un active f1 f2 by (cases tks) (auto simp: determineStatus_def Let_def)
  have d': "determineStatus_unlocalized task tks ps = None"
    using un active f1 f2 by (cases tks) (auto simp: determineStatus_unlocalized_def Let_def)
  from getTaskData_miss_ok [OF miss tok t a p g, of LOCALES] d d' show ?thesis by auto
qed

text \<open>
  An active task assigned to a status \<open>KS-gone\<close> that the project does not have, and an
  active task without assignment in a project without a \<open>-TODO\<close> status.
\<close>

theorem status_null_witness:
  "fst (getTaskData sample_locales 0 ''T-1''
        (sample_cache,
         sample_api 0 (Some [\<lparr>tks_taskId = ''T-1'', tks_statusId = ''KS-gone''\<rparr>]) sample_statuses))
     = Inr \<lparr>td_id = ''T-1'', td_title = ''Write report'', td_projectId = ''P-1'',
            td_status = None,
            td_tags = [\<lparr>tag_id = ''A-1'', tag_title = ''work'', tag_color = None,
                        tag_parent = None\<rparr>],
            td_noteId = None, td_isCompleted = False, td_isCancelled = False\<rparr>
   \<and> fst (getTaskData sample_locales 0 ''T-1''
        (sample_cache, sample_api 0 (Some []) [\<lparr>ks_id = ''KS-1'', ks_name = ''Custom'', kanbanOrder = 0\<rparr>]))
     = Inr \<lparr>td_id = ''T-1'', td_title = ''Write report'', td_projectId = ''P-1'',
            td_status = None,
            td_tags = [\<lparr>tag_id = ''A-1'', tag_title = ''work'', tag_color = None,
                        tag_parent = None\<rparr>],
            td_noteId = None, td_isCompleted = False, td_isCancelled = False\<rparr>"
proof -
  let ?tks = "[\<lparr>tks_taskId = ''T-1'', tks_statusId = ''KS-gone''\<rparr>]"
  let ?api = "sample_api 0 (Some ?tks) sample_statuses"
  have miss: "\<not> fresh sample_cache 0 (taskCache sample_cache ''T-1'')"
    by (simp add: fresh_def sample_cache_def)
  have tok: "token ?api \<noteq> []" by (simp add: sample_api_def)
  have t: "taskStore ?api ''T-1'' = Some (sample_task 0)" by (simp add: sample_api_def)
  have a: "kanbanTaskStatuses ?api ''T-1'' = Some ?tks" by (simp add: sample_api_def)
  have p: "scopedStatuses sample_cache ?api 0 (task_projectId (sample_task 0)) = Some sample_statuses"
    by (simp add: scopedStatuses_def fresh_def sample_cache_def sample_api_def sample_task_def)
  have g: "catalog sample_cache ?api 0 = Some sample_tags"
    by (simp add: catalog_def fresh_def sample_cache_def sample_api_def)
  have act: "task_checked (sample_task 0) \<noteq> 1" "task_checked (sample_task 0) \<noteq> 2"
    by (simp_all add: sample_task_def)
  have un: "(?tks \<noteq> [] \<and> tks_statusId (hd ?tks) \<notin> ks_id ` set sample_statuses)
             \<or> (?tks = [] \<and> (\<forall>s \<in> set sample_statuses. \<not> endsWith (ks_id s) ''-TODO''))"
    by (simp add: sample_statuses_def)
  have r1: "fst (getTaskData sample_locales 0 ''T-1'' (sample_cache, ?api))
     = Inr \<lparr>td_id = ''T-1'', td_title = ''Write report'', td_projectId = ''P-1'',
            td_status = None,
            td_tags = [\<lparr>tag_id = ''A-1'', tag_title = ''work'', tag_color = None,
                        tag_parent = None\<rparr>],
            td_noteId = None, td_isCompleted = False, td_isCancelled = False\<rparr>"
    by (simp add: getTaskData_def sample_cache_def sample_api_def sample_task_def
        api_getTask_def api_getTaskKanbanStatus_def request_def getKanbanStatuses_def
        api_getKanbanStatuses_def getTagsByIds_def getTags_def api_getTags_def all3_def
        determineStatus_def sample_locales_def sample_tags_def sample_statuses_def Let_def)
  have r2: "fst (getTaskData sample_locales 0 ''T-1''
        (sample_cache, sample_api 0 (Some []) [\<lparr>ks_id = ''KS-1'', ks_name = ''Custom'', kanbanOrder = 0\<rparr>]))
     = Inr \<lparr>td_id = ''T-1'', td_title = ''Write report'', td_projectId = ''P-1'',
            td_status = None,
            td_tags = [\<lparr>tag_id = ''A-1'', tag_title = ''work'', tag_color = None,
                        tag_parent = None\<rparr>],
            td_noteId = None, td_isCompleted = False, td_isCancelled = False\<rparr>"
    by (simp add: getTaskData_def sample_cache_def sample_api_def sample_task_def
        api_getTask_def api_getTaskKanbanStatus_def request_def getKanbanStatuses_def
        api_getKanbanStatuses_def getTagsByIds_def getTags_def api_getTags_def all3_def
        determineStatus_def sample_locales_def sample_tags_def endsWith_def Let_def)
  from status_null [OF miss tok t a p g act un, of sample_locales] r1 r2
  show ?thesis by - (intro conjI, assumption+)
qed

section \<open>Enrichment is all or nothing (C8)\<close>

text \<open>
  C8. When a call of \<open>getTaskData\<close> has to fetch (the per-task entry is missing or
  expired) and the task fetch rejects (no token, or the store has no such task), or the
  fetch of the task's status assignment, of the scoped status set or of the tags rejects,
  the call rejects and the per-task cache is what it was before the call.
\<close>

theorem enrichment_atomic:
  assumes miss: "\<not> fresh c now (taskCache c taskId)"
    and rej: "token api = [] \<or> taskStore api taskId = None
              \<or> kanbanTaskStatuses api taskId = None
              \<or> scopedStatuses c api now (task_projectId (the (taskStore api taskId))) = None
              \<or> catalog c api now = None"
  shows "\<exists>err c' api'. getTaskData LOCALES now taskId (c, api) = (Inl err, c', api')
           \<and> taskCache c' = taskCache c"
proof (cases "token api = [] \<or> taskStore api taskId = None")
  case True
  from getTaskData_notask [OF miss True, of LOCALES] show ?thesis by blast
next
  case False
  then obtain task where tok: "token api \<noteq> []" and t: "taskStore api taskId = Some task" by auto
  from rej False t have r: "kanbanTaskStatuses api taskId = None
              \<or> scopedStatuses c api now (task_projectId task) = None
              \<or> catalog c api now = None" by auto
  then have "\<exists>e. fetched c api now taskId task = Inl e"
    by (auto simp: fetched_def all3_def split: option.splits sum.splits)
  then obtain e where f: "fetched c api now taskId task = Inl e" by blast
  from getTaskData_miss [OF miss tok t, of LOCALES] show ?thesis
    unfolding f by auto
qed

text \<open>
  The fetch of the status assignment rejects while the statuses and the tags arrive: the
  call rejects, the per-task cache stays empty, the two other caches are filled.
\<close>

theorem enrichment_atomic_witness:
  "\<not> fresh sample_cache 0 (taskCache sample_cache ''T-1'')
   \<and> kanbanTaskStatuses (sample_api 0 None sample_statuses) ''T-1'' = None
   \<and> fst (getTaskData sample_locales 0 ''T-1'' (sample_cache, sample_api 0 None sample_statuses))
       = Inl RequestFailed
   \<and> taskCache (fst (snd (getTaskData sample_locales 0 ''T-1''
                            (sample_cache, sample_api 0 None sample_statuses)))) ''T-1'' = None
   \<and> tagsCache (fst (snd (getTaskData sample_locales 0 ''T-1''
                            (sample_cache, sample_api 0 None sample_statuses))))
       = Some \<lparr>data = sample_tags, timestamp = 0\<rparr>"
proof -
  let ?api = "sample_api 0 None sample_statuses"
  have miss: "\<not> fresh sample_cache 0 (taskCache sample_cache ''T-1'')"
    by (simp add: fresh_def sample_cache_def)
  have a: "kanbanTaskStatuses ?api ''T-1'' = None" by (simp add: sample_api_def)
  have rej: "token ?api = [] \<or> taskStore ?api ''T-1'' = None
              \<or> kanbanTaskStatuses ?api ''T-1'' = None
              \<or> scopedStatuses sample_cache ?api 0 (task_projectId (the (taskStore ?api ''T-1''))) = None
              \<or> catalog sample_cache ?api 0 = None"
    using a by simp
  have g: "getTaskData sample_locales 0 ''T-1'' (sample_cache, ?api)
     = (Inl RequestFailed,
        sample_cache\<lparr>kanbanCache := (kanbanCache sample_cache)
                        (''P-1'' := Some \<lparr>data = sample_statuses, timestamp = 0\<rparr>),
                     tagsCache := Some \<lparr>data = sample_tags, timestamp = 0\<rparr>\<rparr>,
        ?api\<lparr>requests := [GET_task ''T-1'', GET_kanban_task_status ''T-1'',
                            GET_kanban_status ''P-1'', GET_tag]\<rparr>)"
    by (simp add: getTaskData_def sample_cache_def sample_api_def sample_task_def
        api_getTask_def api_getTaskKanbanStatus_def request_def getKanbanStatuses_def
        api_getKanbanStatuses_def getTagsByIds_def getTags_def api_getTags_def all3_def Let_def)
  have r1: "fst (getTaskData sample_locales 0 ''T-1'' (sample_cache, ?api)) = Inl RequestFailed"
    by (simp add: g)
  have r2: "taskCache (fst (snd (getTaskData sample_locales 0 ''T-1'' (sample_cache, ?api)))) ''T-1'' = None"
    unfolding g by (simp add: sample_cache_def)
  have r3: "tagsCache (fst (snd (getTaskData sample_locales 0 ''T-1'' (sample_cache, ?api))))
       = Some \<lparr>data = sample_tags, timestamp = 0\<rparr>"
    by (simp add: g)
  from enrichment_atomic [OF miss rej, of sample_locales] miss a r1 r2 r3
  show ?thesis by - (intro conjI, assumption+)
qed

section \<open>Expiry of cache entries (C9)\<close>

text \<open>
  C9. A cache entry with timestamp \<open>T\<close> is served, without any request and without
  any change, by a read at a time \<open>now\<close> with \<open>now - T \<le> ttl\<close>, where \<open>ttl\<close> is
  \<open>cacheTTL\<close> minutes in milliseconds; a read with \<open>now - T > ttl\<close> sends the request
  for that record again (with a token configured). This holds for the per-task entries,
  the per-project status sets and the tag catalogue, each by its own timestamp.
\<close>

theorem cache_expiry_boundary:
  "(\<forall>e. taskCache c taskId = Some e \<longrightarrow>
      (now - timestamp e \<le> cacheTTL c * 60 * 1000 \<longrightarrow>
         getTaskData LOCALES now taskId (c, api) = (Inr (data e), c, api))
      \<and> (cacheTTL c * 60 * 1000 < now - timestamp e \<and> token api \<noteq> [] \<longrightarrow>
           (\<exists>r c' rest. getTaskData LOCALES now taskId (c, api) =
              (r, c', api\<lparr>requests := requests api @ GET_task taskId # rest\<rparr>))))
   \<and> (\<forall>e. kanbanCache c pid = Some e \<longrightarrow>
      (now - timestamp e \<le> cacheTTL c * 60 * 1000 \<longrightarrow>
         getKanbanStatuses now pid (c, api) = (Inr (data e), c, api))
      \<and> (cacheTTL c * 60 * 1000 < now - timestamp e \<and> token api \<noteq> [] \<longrightarrow>
           (\<exists>r c'. getKanbanStatuses now pid (c, api) =
              (r, c', api\<lparr>requests := requests api @ [GET_kanban_status pid]\<rparr>))))
   \<and> (\<forall>e. tagsCache c = Some e \<longrightarrow>
      (now - timestamp e \<le> cacheTTL c * 60 * 1000 \<longrightarrow>
         getTags now (c, api) = (Inr (data e), c, api))
      \<and> (cacheTTL c * 60 * 1000 < now - timestamp e \<and> token api \<noteq> [] \<longrightarrow>
           (\<exists>r c'. getTags now (c, api) =
              (r, c', api\<lparr>requests := requests api @ [GET_tag]\<rparr>))))"
proof (intro conjI allI impI)
  fix e assume "taskCache c taskId = Some e" "now - timestamp e \<le> cacheTTL c * 60 * 1000"
  then show "getTaskData LOCALES now taskId (c, api) = (Inr (data e), c, api)"
    by (simp add: getTaskData_def isExpired_def)
next
  fix e assume e: "taskCache c taskId = Some e"
    and x: "cacheTTL c * 60 * 1000 < now - timestamp e \<and> token api \<noteq> []"
  then have "\<not> fresh c now (taskCache c taskId)" by (simp add: fresh_def isExpired_def)
  from getTaskData_expired_log [OF this, of api LOCALES] x
  show "\<exists>r c' rest. getTaskData LOCALES now taskId (c, api) =
              (r, c', api\<lparr>requests := requests api @ GET_task taskId # rest\<rparr>)" by blast
next
  fix e assume "kanbanCache c pid = Some e" "now - timestamp e \<le> cacheTTL c * 60 * 1000"
  then show "getKanbanStatuses now pid (c, api) = (Inr (data e), c, api)"
    by (simp add: getKanbanStatuses_def isExpired_def)
next
  fix e assume e: "kanbanCache c pid = Some e"
    and x: "cacheTTL c * 60 * 1000 < now - timestamp e \<and> token api \<noteq> []"
  then have f: "\<not> fresh c now (kanbanCache c pid)" by (simp add: fresh_def isExpired_def)
  from x getKanbanStatuses_res [of api now pid c] f
  show "\<exists>r c'. getKanbanStatuses now pid (c, api) =
              (r, c', api\<lparr>requests := requests api @ [GET_kanban_status pid]\<rparr>)" by auto
next
  fix e assume "tagsCache c = Some e" "now - timestamp e \<le> cacheTTL c * 60 * 1000"
  then show "getTags now (c, api) = (Inr (data e), c, api)"
    by (simp add: getTags_def isExpired_def)
next
  fix e assume e: "tagsCache c = Some e"
    and x: "cacheTTL c * 60 * 1000 < now - timestamp e \<and> token api \<noteq> []"
  then have f: "\<not> fresh c now (tagsCache c)" by (simp add: fresh_def isExpired_def)
  from x getTags_res [of api now c] f
  show "\<exists>r c'. getTags now (c, api) =
              (r, c', api\<lparr>requests := requests api @ [GET_tag]\<rparr>)" by auto
qed

text \<open>
  Entries of time 1000 with a time-to-live of 5 minutes (300000 ms): a read at 301000
  is served from the cache, a read at 301001 fetches again.
\<close>

theorem cache_expiry_boundary_witness:
  "taskCache warm_cache ''T-1'' = Some \<lparr>data = sample_data, timestamp = 1000\<rparr>
   \<and> getTaskData sample_locales 301000 ''T-1'' (warm_cache, sample_api 0 (Some []) sample_statuses)
       = (Inr sample_data, warm_cache, sample_api 0 (Some []) sample_statuses)
   \<and> requests (snd (snd (getTaskData sample_locales 301001 ''T-1''
                            (warm_cache, sample_api 0 (Some []) sample_statuses))))
       = [GET_task ''T-1'', GET_kanban_task_status ''T-1'', GET_kanban_status ''P-1'', GET_tag]"
proof -
  let ?api = "sample_api 0 (Some []) sample_statuses"
  have e: "taskCache warm_cache ''T-1'' = Some \<lparr>data = sample_data, timestamp = 1000\<rparr>"
    by (simp add: warm_cache_def)
  have r1: "getTaskData sample_locales 301000 ''T-1'' (warm_cache, ?api)
       = (Inr sample_data, warm_cache, ?api)"
    by (simp add: getTaskData_def warm_cache_def isExpired_def)
  have r2: "requests (snd (snd (getTaskData sample_locales 301001 ''T-1'' (warm_cache, ?api))))
       = [GET_task ''T-1'', GET_kanban_task_status ''T-1'', GET_kanban_status ''P-1'', GET_tag]"
    by (simp add: getTaskData_def warm_cache_def isExpired_def sample_api_def sample_task_def
        api_getTask_def api_getTaskKanbanStatus_def request_def getKanbanStatuses_def
        api_getKanbanStatuses_def getTagsByIds_def getTags_def api_getTags_def all3_def Let_def)
  from cache_expiry_boundary [of warm_cache "''T-1''" 301000 sample_locales ?api] e r1 r2
  show ?thesis by - (intro conjI, assumption+)
qed

section \<open>Strings and the fragment marker\<close>

lemma startsWith_Cons:
  "startsWith (c # cs) (p # ps) \<longleftrightarrow> c = p \<and> startsWith cs ps"
  by (simp add: startsWith_def)

lemma startsWith_Nil [simp]: "startsWith s []"
  by (simp add: startsWith_def)

lemma startsWith_Nil_left: "startsWith [] p \<longleftrightarrow> p = []"
  by (auto simp: startsWith_def)

lemma startsWith_length:
  assumes "startsWith s p"
  shows "length p \<le> length s"
proof -
  from assms have "length (take (length p) s) = length p" by (simp add: startsWith_def)
  then show ?thesis by simp
qed

lemma startsWith_append: "startsWith s p \<Longrightarrow> startsWith (s @ t) p"
  using startsWith_length [of s p] by (simp add: startsWith_def)

lemma includes_of_startsWith: "startsWith s p \<Longrightarrow> includes_str s p"
  by (cases s) (auto simp: startsWith_def)

lemma startsWith_self_append: "startsWith (p @ t) p"
  by (simp add: startsWith_def)

lemma includes_append_right: "includes_str s p \<Longrightarrow> includes_str (s @ t) p"
proof (induction s)
  case Nil
  then show ?case by (cases t) (simp_all)
next
  case (Cons c s)
  then show ?case by (auto dest: startsWith_append [where t = t])
qed

lemma includes_append_left: "includes_str t p \<Longrightarrow> includes_str (s @ t) p"
  by (induction s) auto

lemma includes_self: "includes_str (a @ p @ b) p"
proof -
  have "includes_str (p @ b) p"
    by (rule includes_of_startsWith) (simp add: startsWith_def)
  then show ?thesis by (rule includes_append_left)
qed







section \<open>The link editor after a write\<close>






lemma update_when_absent:
  assumes "findObsidianLinkById ops sid = None"
  shows "updateObsidianLinkById ops t url sid =
           (let stripped = (if ops \<noteq> [] \<and> last ops = newline_op then butlast ops else ops)
            in stripped @ (if stripped \<noteq> [] then [newline_op] else [])
                 @ createNoteLinkOps t url sid)"
  using assms
  by (simp add: updateObsidianLinkById_def updateObsidianLinkById_store_def spread_def
      array_pop_def array_push_def isOnlyNewline_eq Let_def)


lemma find_after_migration:
  assumes n: "findObsidianLinkById ops sid = None"
    and l: "findAnyObsidianLink ops = Some (i, lop)"
  shows "\<exists>a lnk. i < length ops \<and> lop = ops ! i \<and> attributes lop = Some a \<and> link a = Some lnk
           \<and> startsWith lnk ''obsidian://'' \<and> \<not> includes_str lnk ''#sid=''
           \<and> addSidToLink ops i sid
                = Some (ops[i := lop\<lparr>attributes := Some (a\<lparr>link := Some (lnk @ ''#sid='' @ sid)\<rparr>)\<rparr>])
           \<and> findObsidianLinkById
                (ops[i := lop\<lparr>attributes := Some (a\<lparr>link := Some (lnk @ ''#sid='' @ sid)\<rparr>)\<rparr>]) sid
                = Some (i, lop\<lparr>attributes := Some (a\<lparr>link := Some (lnk @ ''#sid='' @ sid)\<rparr>)\<rparr>)"
proof -
  from l have s: "scan isLegacyLink ops 0 = Some (i, lop)" by (simp add: findAnyObsidianLink_def)
  from scan_Some [OF s] have i: "i < length ops" and e: "lop = ops ! i" and g: "isLegacyLink lop"
    by auto
  from g obtain a lnk where a: "attributes lop = Some a" and k: "link a = Some lnk"
    and sw: "startsWith lnk ''obsidian://''" and ni: "\<not> includes_str lnk ''#sid=''"
    by (auto simp: isLegacyLink_def op_link_def SID_FRAGMENT_def split: option.splits)
  have ne: "lnk \<noteq> []" using sw by (auto simp: startsWith_def)
  define nop where "nop = lop\<lparr>attributes := Some (a\<lparr>link := Some (lnk @ ''#sid='' @ sid)\<rparr>)\<rparr>"
  have ad: "addSidToLink ops i sid = Some (ops[i := nop])"
    using i e a k ne by (simp add: addSidToLink_def op_link_def withLink_def nop_def SID_FRAGMENT_def)
  from n have nc: "\<forall>op \<in> set ops. \<not> carriesSid sid op"
    by (simp add: findObsidianLinkById_def scan_None)
  have c: "carriesSid sid nop"
    using includes_self [of lnk "''#sid='' @ sid" "[]"]
    by (simp add: nop_def carriesSid_def op_link_def SID_FRAGMENT_def)
  have "scan (carriesSid sid) (ops[i := nop]) 0 = Some (0 + i, (ops[i := nop]) ! i)"
    using i nc c by (intro scan_first) auto
  then have "findObsidianLinkById (ops[i := nop]) sid = Some (i, nop)"
    using i by (simp add: findObsidianLinkById_def)
  with i e a k sw ni ad show ?thesis unfolding nop_def by blast
qed




section \<open>One run of the synchronizer for a reference\<close>

lemma getOrCreate_existing:
  assumes "url = Some (FStr u)" "extractSidFromUrl u = Some sid"
  shows "getOrCreateSingularityId fl url fieldName s = (Inr sid, s)"
  using assms by (simp add: getOrCreateSingularityId_def)

lemma addSidToFieldUrl_api:
  "plugin_api (snd (addSidToFieldUrl fl fieldName sid s)) = plugin_api s
   \<and> plugin_cache (snd (addSidToFieldUrl fl fieldName sid s)) = plugin_cache s
   \<and> metadataFrontmatter (snd (addSidToFieldUrl fl fieldName sid s)) = metadataFrontmatter s
   \<and> settings_vaultName (snd (addSidToFieldUrl fl fieldName sid s)) = settings_vaultName s
   \<and> vault_name (snd (addSidToFieldUrl fl fieldName sid s)) = vault_name s"
  by (simp add: addSidToFieldUrl_def Let_def split: sum.splits fmval.splits)

lemma getOrCreate_api:
  assumes "getOrCreateSingularityId fl url fieldName s = (r, s1)"
  shows "plugin_api s1 = plugin_api s \<and> plugin_cache s1 = plugin_cache s
         \<and> metadataFrontmatter s1 = metadataFrontmatter s
         \<and> settings_vaultName s1 = settings_vaultName s \<and> vault_name s1 = vault_name s"
proof (cases "\<exists>u. url = Some (FStr u) \<and> extractSidFromUrl u = None")
  case True
  then obtain u where u: "url = Some (FStr u)" "extractSidFromUrl u = None" by blast
  define s0 where "s0 = s\<lparr>draws := draws s + 31\<rparr>"
  define x where "x = addSidToFieldUrl fl fieldName (generateUUID (random s) (draws s)) s0"
  have "s1 = snd x"
    using assms u by (cases x) (auto simp: getOrCreateSingularityId_def Let_def x_def s0_def
        split: sum.splits)
  with addSidToFieldUrl_api [of fl fieldName "generateUUID (random s) (draws s)" s0]
  show ?thesis by (simp add: x_def s0_def)
next
  case False
  then have "s1 = s"
    using assms
    by (auto simp: getOrCreateSingularityId_def split: option.splits fmval.splits)
  then show ?thesis by simp
qed

lemma writeBack_ok:
  assumes "token (plugin_api s) \<noteq> []" "taskStore (plugin_api s) taskId = Some task"
  shows "writeBack taskId d s =
           (Inr (),
            s\<lparr>plugin_api := store_patch taskId d
                   ((plugin_api s)\<lparr>requests := requests (plugin_api s) @ [PATCH_task taskId d]\<rparr>),
              plugin_cache := invalidateTask taskId (plugin_cache s)\<rparr>)"
  using assms
  by (simp add: writeBack_def api_updateTaskNote_def request_def store_patch_def Let_def)

lemma sync_unfold:
  assumes g: "getOrCreateSingularityId fl (getFieldValue (metadataFrontmatter s) fieldName)
                fieldName s = (Inr sid, s1)"
    and tok: "token (plugin_api s) \<noteq> []"
    and t: "taskStore (plugin_api s) taskId = Some task"
  shows "syncObsidianUrl taskId fl fieldName s =
     (let url = buildObsidianUrl (getVaultName s) (file_path fl);
          title = file_basename fl
      in if truthy_note (task_note task) then
           (case noteStore (plugin_api s) (the (task_note task)) of
              None \<Rightarrow> (Inl RequestFailed,
                        logged s1 [GET_task taskId, GET_note (the (task_note task))])
            | Some content \<Rightarrow>
                (case resolveLink (parseNoteContent content) title url sid of
                   Inl e \<Rightarrow> (Inl e, logged s1 [GET_task taskId, GET_note (the (task_note task))])
                 | Inr None \<Rightarrow>
                     (Inr (), logged s1 [GET_task taskId, GET_note (the (task_note task))])
                 | Inr (Some d) \<Rightarrow>
                     writeBack taskId d
                       (logged s1 [GET_task taskId, GET_note (the (task_note task))])))
         else writeBack taskId (createInitialDelta title url sid) (logged s1 [GET_task taskId]))"
proof -
  from getOrCreate_api [OF g] have a: "plugin_api s1 = plugin_api s" by simp
  show ?thesis
    using tok t
    by (simp add: syncObsidianUrl_def g a api_getTask_def api_getNote_def request_def logged_def
        Let_def split: option.splits sum.splits)
qed

lemma fieldSid_getOrCreate:
  assumes "fieldSid s fieldName = Some sid"
  shows "getOrCreateSingularityId fl (getFieldValue (metadataFrontmatter s) fieldName) fieldName s
           = (Inr sid, s)"
  using assms
  by (auto simp: fieldSid_def getOrCreateSingularityId_def split: option.splits fmval.splits)

lemma taskBody_Some:
  assumes "taskBody s taskId = Some ops"
  shows "\<exists>task content. taskStore (plugin_api s) taskId = Some task \<and> truthy_note (task_note task)
           \<and> noteStore (plugin_api s) (the (task_note task)) = Some content
           \<and> parseNoteContent content = OpsArray ops"
  using assms by (auto simp: taskBody_def split: option.splits if_splits parsed.splits)




lemma logged_same:
  "fieldSid (logged s rqs) fieldName = fieldSid s fieldName"
  "taskBody (logged s rqs) taskId = taskBody s taskId"
  "noteUrl (logged s rqs) fl = noteUrl s fl"
  "token (plugin_api (logged s rqs)) = token (plugin_api s)"
  "taskStore (plugin_api (logged s rqs)) = taskStore (plugin_api s)"
  "noteStore (plugin_api (logged s rqs)) = noteStore (plugin_api s)"
  "metadataFrontmatter (logged s rqs) = metadataFrontmatter s"
  by (simp_all add: fieldSid_def taskBody_def noteUrl_def getVaultName_def logged_def
      cong: option.case_cong if_cong)


lemma writes_logged: "writes (logged s rqs) = writes s @ filter isWrite rqs"
  by (simp add: writes_def logged_def)



lemma requests_store_patch: "requests (store_patch taskId d a) = requests a"
  by (simp add: store_patch_def Let_def split: option.splits)

lemma token_store_patch: "token (store_patch taskId d a) = token a"
  by (simp add: store_patch_def Let_def split: option.splits)

lemma after_writeBack:
  assumes tok: "token (plugin_api s) \<noteq> []" and t: "taskStore (plugin_api s) taskId = Some task"
  shows "fst (writeBack taskId d s) = Inr ()"
    and "taskBody (snd (writeBack taskId d s)) taskId = Some d"
    and "fieldSid (snd (writeBack taskId d s)) fieldName = fieldSid s fieldName"
    and "noteUrl (snd (writeBack taskId d s)) fl = noteUrl s fl"
    and "token (plugin_api (snd (writeBack taskId d s))) = token (plugin_api s)"
    and "writes (snd (writeBack taskId d s)) = writes s @ [PATCH_task taskId d]"
    and "fileFrontmatter (snd (writeBack taskId d s)) = fileFrontmatter s"
    and "metadataFrontmatter (snd (writeBack taskId d s)) = metadataFrontmatter s"
    and "taskCache (plugin_cache (snd (writeBack taskId d s))) taskId = None"
proof -
  note w = writeBack_ok [OF tok t, of d]
  show "fst (writeBack taskId d s) = Inr ()" by (simp add: w)
  show "taskBody (snd (writeBack taskId d s)) taskId = Some d"
    using t by (simp add: w taskBody_def store_patch_def truthy_note_def parseNoteContent_def Let_def
        split: option.splits)
  show "fieldSid (snd (writeBack taskId d s)) fieldName = fieldSid s fieldName"
    by (simp add: w fieldSid_def)
  show "noteUrl (snd (writeBack taskId d s)) fl = noteUrl s fl"
    by (simp add: w noteUrl_def getVaultName_def)
  show "token (plugin_api (snd (writeBack taskId d s))) = token (plugin_api s)"
    by (simp add: w token_store_patch)
  show "writes (snd (writeBack taskId d s)) = writes s @ [PATCH_task taskId d]"
    by (simp add: w writes_def requests_store_patch isWrite_def)
  show "fileFrontmatter (snd (writeBack taskId d s)) = fileFrontmatter s" by (simp add: w)
  show "metadataFrontmatter (snd (writeBack taskId d s)) = metadataFrontmatter s" by (simp add: w)
  show "taskCache (plugin_cache (snd (writeBack taskId d s))) taskId = None"
    by (simp add: w invalidateTask_def)
qed



section \<open>Runs that write\<close>

lemma sync_step:
  assumes sid: "fieldSid s fieldName = Some sid"
    and tok: "token (plugin_api s) \<noteq> []"
    and b: "taskBody s taskId = Some ops"
  shows "\<exists>nid.
     syncObsidianUrl taskId fl fieldName s =
       (case resolveLink (OpsArray ops) (file_basename fl) (noteUrl s fl) sid of
          Inl e \<Rightarrow> (Inl e, logged s [GET_task taskId, GET_note nid])
        | Inr None \<Rightarrow> (Inr (), logged s [GET_task taskId, GET_note nid])
        | Inr (Some d) \<Rightarrow> writeBack taskId d (logged s [GET_task taskId, GET_note nid]))
     \<and> token (plugin_api (logged s [GET_task taskId, GET_note nid])) \<noteq> []
     \<and> (\<exists>task. taskStore (plugin_api (logged s [GET_task taskId, GET_note nid])) taskId = Some task)"
proof -
  from taskBody_Some [OF b] obtain task content where
    t: "taskStore (plugin_api s) taskId = Some task" and n: "truthy_note (task_note task)"
    and c: "noteStore (plugin_api s) (the (task_note task)) = Some content"
    and p: "parseNoteContent content = OpsArray ops" by blast
  from sync_unfold [OF fieldSid_getOrCreate [OF sid] tok t, of fl] n c p tok t
  show ?thesis by (auto simp: Let_def noteUrl_def logged_same)
qed

lemma sync_writes:
  assumes sid: "fieldSid s fieldName = Some sid"
    and tok: "token (plugin_api s) \<noteq> []"
    and b: "taskBody s taskId = Some ops"
    and r: "resolveLink (OpsArray ops) (file_basename fl) (noteUrl s fl) sid = Inr (Some d)"
  shows "fst (syncObsidianUrl taskId fl fieldName s) = Inr ()"
    and "writes (snd (syncObsidianUrl taskId fl fieldName s)) = writes s @ [PATCH_task taskId d]"
    and "taskBody (snd (syncObsidianUrl taskId fl fieldName s)) taskId = Some d"
    and "fieldSid (snd (syncObsidianUrl taskId fl fieldName s)) fieldName = Some sid"
    and "token (plugin_api (snd (syncObsidianUrl taskId fl fieldName s))) \<noteq> []"
    and "noteUrl (snd (syncObsidianUrl taskId fl fieldName s)) fl = noteUrl s fl"
    and "metadataFrontmatter (snd (syncObsidianUrl taskId fl fieldName s)) = metadataFrontmatter s"
    and "fileFrontmatter (snd (syncObsidianUrl taskId fl fieldName s)) = fileFrontmatter s"
    and "taskCache (plugin_cache (snd (syncObsidianUrl taskId fl fieldName s))) taskId = None"
proof -
  from sync_step [OF sid tok b, of fl] r obtain nid task where
    e: "syncObsidianUrl taskId fl fieldName s
          = writeBack taskId d (logged s [GET_task taskId, GET_note nid])"
    and k: "token (plugin_api (logged s [GET_task taskId, GET_note nid])) \<noteq> []"
      "taskStore (plugin_api (logged s [GET_task taskId, GET_note nid])) taskId = Some task"
    by auto
  note a = after_writeBack [OF k, of d]
  show "fst (syncObsidianUrl taskId fl fieldName s) = Inr ()" by (simp add: e a)
  show "writes (snd (syncObsidianUrl taskId fl fieldName s)) = writes s @ [PATCH_task taskId d]"
    by (simp add: e a writes_logged isWrite_def)
  show "taskBody (snd (syncObsidianUrl taskId fl fieldName s)) taskId = Some d" by (simp add: e a)
  show "fieldSid (snd (syncObsidianUrl taskId fl fieldName s)) fieldName = Some sid"
    by (simp add: e a logged_same sid)
  show "token (plugin_api (snd (syncObsidianUrl taskId fl fieldName s))) \<noteq> []"
    using tok by (simp add: e a logged_same)
  show "noteUrl (snd (syncObsidianUrl taskId fl fieldName s)) fl = noteUrl s fl"
    by (simp add: e a logged_same)
  show "metadataFrontmatter (snd (syncObsidianUrl taskId fl fieldName s)) = metadataFrontmatter s"
    by (simp add: e a logged_same)
  have "fileFrontmatter (logged s [GET_task taskId, GET_note nid]) = fileFrontmatter s"
    by (simp add: logged_def)
  then show "fileFrontmatter (snd (syncObsidianUrl taskId fl fieldName s)) = fileFrontmatter s"
    by (simp add: e a)
  show "taskCache (plugin_cache (snd (syncObsidianUrl taskId fl fieldName s))) taskId = None"
    by (simp add: e a)
qed



section \<open>The sample note\<close>



lemma sample_fieldSid: "fieldSid (sample_plugin sample_reference c) ''task'' = Some ''ab12''"
  by (simp add: fieldSid_def sample_plugin_def getFieldValue_def isKeyChar_def sample_reference_def
     startsWith_ci_def lower_def isSidChar_def)

lemma sample_token: "token (plugin_api (sample_plugin r c)) \<noteq> []"
  by (simp add: sample_plugin_def)

lemma sample_taskBody: "taskBody (sample_plugin r (Json (OpsArray ops))) ''T-1'' = Some ops"
  by (simp add: taskBody_def sample_plugin_def truthy_note_def parseNoteContent_def)

lemma sample_noteUrl: "noteUrl (sample_plugin r c) sample_file = ''obsidian://open?vault=V&file=New.md''"
  by (simp add: noteUrl_def sample_plugin_def sample_file_def getVaultName_def buildObsidianUrl_def
      encodeURIComponent_def unreserved_def)

lemma sample_basename: "file_basename sample_file = ''New''"
  by (simp add: sample_file_def)

lemma sample_task_stored:
  "taskStore (plugin_api (sample_plugin r c)) ''T-1''
     = Some ((sample_task 0)\<lparr>task_note := Some ''N-T-1''\<rparr>)"
  by (simp add: sample_plugin_def)

lemma sample_writes: "writes (sample_plugin r c) = []"
  by (simp add: writes_def sample_plugin_def)

lemma resolve_legacy:
  "resolveLink (OpsArray legacy_body) ''New'' ''obsidian://open?vault=V&file=New.md'' ''ab12''
     = Inr (Some migrated_body)"
  by (simp add: resolveLink_def legacy_body_def migrated_body_def findObsidianLinkById_def
      findAnyObsidianLink_def carriesSid_def isLegacyLink_def op_link_def newline_op_def
      SID_FRAGMENT_def startsWith_def addSidToLink_def withLink_def)




lemma sync_step_created:
  assumes g: "getOrCreateSingularityId fl (getFieldValue (metadataFrontmatter s) fieldName)
                fieldName s = (Inr sid, s1)"
    and tok: "token (plugin_api s) \<noteq> []"
    and b: "taskBody s taskId = Some ops"
    and r: "resolveLink (OpsArray ops) (file_basename fl) (noteUrl s fl) sid = Inr (Some d)"
  shows "fst (syncObsidianUrl taskId fl fieldName s) = Inr ()"
    and "writes (snd (syncObsidianUrl taskId fl fieldName s)) = writes s @ [PATCH_task taskId d]"
    and "taskBody (snd (syncObsidianUrl taskId fl fieldName s)) taskId = Some d"
proof -
  from taskBody_Some [OF b] obtain task content where
    t: "taskStore (plugin_api s) taskId = Some task" and n: "truthy_note (task_note task)"
    and c: "noteStore (plugin_api s) (the (task_note task)) = Some content"
    and p: "parseNoteContent content = OpsArray ops" by blast
  let ?s = "logged s1 [GET_task taskId, GET_note (the (task_note task))]"
  from getOrCreate_api [OF g] have a: "plugin_api s1 = plugin_api s" by simp
  from sync_unfold [OF g tok t] n c p r
  have e: "syncObsidianUrl taskId fl fieldName s = writeBack taskId d ?s"
    by (simp add: Let_def noteUrl_def)
  have k: "token (plugin_api ?s) \<noteq> []" "taskStore (plugin_api ?s) taskId = Some task"
    using tok t a by (simp_all add: logged_same)
  note w = after_writeBack [OF k, of d]
  have ws: "writes s1 = writes s" by (simp add: writes_def a)
  show "fst (syncObsidianUrl taskId fl fieldName s) = Inr ()" by (simp add: e w)
  show "writes (snd (syncObsidianUrl taskId fl fieldName s)) = writes s @ [PATCH_task taskId d]"
    by (simp add: e w writes_logged isWrite_def ws)
  show "taskBody (snd (syncObsidianUrl taskId fl fieldName s)) taskId = Some d" by (simp add: e w)
qed

section \<open>Identifiers\<close>

lemma lower_simps [simp]:
  "lower CHR ''#'' = CHR ''#''" "lower CHR ''s'' = CHR ''s''" "lower CHR ''i'' = CHR ''i''"
  "lower CHR ''d'' = CHR ''d''" "lower CHR ''='' = CHR ''=''"
  by (simp_all add: lower_def)

lemma not_sid_hash [simp]: "\<not> isSidChar CHR ''#''"
  by (simp add: isSidChar_def)

lemma matchesAt_overlap:
  assumes "l \<noteq> []" "matchesAt (l @ ''#sid='' @ x)"
  shows "matchesAt l"
proof -
  obtain a l1 where l: "l = a # l1" using assms(1) by (cases l) auto
  show ?thesis
  proof (cases l1)
    case Nil with l assms(2) show ?thesis by (simp add: matchesAt_def startsWith_ci_def)
  next
    case (Cons b l2)
    note l1 = this
    show ?thesis
    proof (cases l2)
      case Nil with l l1 assms(2) show ?thesis by (simp add: matchesAt_def startsWith_ci_def)
    next
      case (Cons c l3)
      note l2 = this
      show ?thesis
      proof (cases l3)
        case Nil with l l1 l2 assms(2) show ?thesis by (simp add: matchesAt_def startsWith_ci_def)
      next
        case (Cons d l4)
        note l3 = this
        show ?thesis
        proof (cases l4)
          case Nil with l l1 l2 l3 assms(2) show ?thesis by (simp add: matchesAt_def startsWith_ci_def)
        next
          case (Cons e l5)
          note l4 = this
          show ?thesis
          proof (cases l5)
            case Nil with l l1 l2 l3 l4 assms(2) show ?thesis
              by (simp add: matchesAt_def startsWith_ci_def)
          next
            case (Cons f l6)
            with l l1 l2 l3 l4 assms(2) show ?thesis
              by (simp add: matchesAt_def startsWith_ci_def split: if_splits)
          qed
        qed
      qed
    qed
  qed
qed

lemma extractSid_unfold:
  "extractSidFromUrl (c # cs) =
     (if matchesAt (c # cs) then Some (takeWhile isSidChar (drop 5 (c # cs)))
      else extractSidFromUrl cs)"
  by (simp add: matchesAt_def Let_def)


text \<open>An identifier appended to a value without one is the identifier read back.\<close>

lemma extractSid_appended:
  assumes "extractSidFromUrl u = None" "sid \<noteq> []" "\<forall>c \<in> set sid. isSidChar c"
  shows "extractSidFromUrl (u @ ''#sid='' @ sid) = Some sid"
  using assms(1)
proof (induction u)
  case Nil
  have tw: "takeWhile isSidChar sid = sid" using assms(3) by (simp add: takeWhile_eq_all_conv)
  show ?case using assms(2)
    by (simp add: startsWith_ci_def Let_def tw del: takeWhile_eq_all_conv)
next
  case (Cons c u)
  have n: "\<not> matchesAt (c # u)"
  proof
    assume "matchesAt (c # u)"
    with Cons.prems show False by (simp only: extractSid_unfold if_True option.distinct)
  qed
  with Cons.prems have r: "extractSidFromUrl u = None"
    by (simp only: extractSid_unfold if_False)
  from matchesAt_overlap [of "c # u" sid] n have "\<not> matchesAt ((c # u) @ ''#sid='' @ sid)" by blast
  then have "\<not> matchesAt (c # u @ ''#sid='' @ sid)" by simp
  then have "extractSidFromUrl (c # u @ ''#sid='' @ sid) = extractSidFromUrl (u @ ''#sid='' @ sid)"
    by (simp only: extractSid_unfold if_False)
  with Cons.IH [OF r] show ?case by simp
qed

section \<open>Generated identifiers\<close>

lemma hexDigit_hex: "v < 16 \<Longrightarrow> hexDigit v \<in> set ''0123456789abcdef''"
  unfolding hexDigit_def by (intro nth_mem) simp

lemma variant_digits: "\<forall>v \<in> set [0 ..< 16]. hexDigit ((v AND 3) OR 8) \<in> set ''89ab''"
  by code_simp

lemma variant_digit: "hexDigit ((r mod 16 AND 3) OR 8) \<in> set ''89ab''"
proof -
  have "r mod 16 \<in> set [0 ..< 16]" by simp
  with variant_digits show ?thesis by blast
qed


lemma fillTemplate_follows: "followsTemplate t (fillTemplate t rnd k)"
proof (induction t arbitrary: k)
  case Nil
  show ?case by simp
next
  case (Cons c t)
  have h: "hexDigit (rnd k mod 16) \<in> set ''0123456789abcdef''"
    by (rule hexDigit_hex) simp
  show ?case
    using Cons [of k] Cons [of "Suc k"] h variant_digit [of "rnd k"]
    by (simp add: Let_def)
qed

lemma generateUUID_v4: "isUUIDv4 (generateUUID rnd k)"
  unfolding isUUIDv4_def generateUUID_def
  using fillTemplate_follows [of uuidTemplate rnd k] by (simp add: uuidTemplate_def)

lemma followsTemplate_sidChars:
  "followsTemplate t s \<Longrightarrow> \<forall>c \<in> set t. c = CHR ''x'' \<or> c = CHR ''y'' \<or> isSidChar c \<Longrightarrow>
     \<forall>c \<in> set s. isSidChar c"
proof (induction t s rule: followsTemplate.induct)
  case 1
  then show ?case by simp
next
  case (2 t ts c cs)
  have "isSidChar c"
    using "2.prems" by (auto simp: isSidChar_def split: if_splits)
  with 2 show ?case by simp
qed simp_all

lemma followsTemplate_length: "followsTemplate t s \<Longrightarrow> length s = length t"
  by (induction t s rule: followsTemplate.induct) simp_all

lemma generateUUID_sidChars:
  "generateUUID rnd k \<noteq> []" "\<forall>c \<in> set (generateUUID rnd k). isSidChar c"
proof -
  have f: "followsTemplate uuidTemplate (generateUUID rnd k)"
    unfolding generateUUID_def by (rule fillTemplate_follows)
  from followsTemplate_length [OF f] show "generateUUID rnd k \<noteq> []"
    by (auto simp: uuidTemplate_def)
  show "\<forall>c \<in> set (generateUUID rnd k). isSidChar c"
    by (rule followsTemplate_sidChars [OF f]) (simp add: uuidTemplate_def isSidChar_def)
qed

section \<open>Writing the identifier into the front matter\<close>

lemma lookup_setKey: "lookup (setKey kvs k v) k = Some v"
  by (induction kvs) auto

lemma getProp_setProp_obj: "getProp (setProp (FObj kvs) p v) p = Some v"
  by (cases p) (simp_all add: lookup_setKey)

lemma getProp_setProp_arr: "n < length xs \<Longrightarrow> getProp (setProp (FArr xs) (Idx n) v) (Idx n) = Some v"
  by simp

lemma follow_Cons:
  "follow (Some v) (p # ps) = (if v = FNull then None else follow (getProp v p) ps)"
  by (cases v) simp_all

lemma follow_Nil: "follow c [] = c"
  by simp

lemma plainPath_shape:
  assumes "plainPath obj (p # ps)"
  shows "(\<exists>kvs k. obj = FObj kvs \<and> p = Key k) \<or> (\<exists>xs n. obj = FArr xs \<and> p = Idx n \<and> n < length xs)"
proof (cases obj)
  case (FArr xs)
  with assms show ?thesis by (cases p) simp_all
next
  case (FObj kvs)
  with assms show ?thesis by (cases p) simp_all
qed (use assms in simp_all)

lemma plainPath_child:
  assumes "plainPath obj (p # ps)"
  shows "\<exists>c. getProp obj p = Some c \<and> plainPath c ps"
proof (cases obj)
  case (FObj kvs)
  with assms show ?thesis by (cases p) (simp_all split: option.splits)
next
  case (FArr xs)
  with assms show ?thesis by (cases p) simp_all
qed (use assms in simp_all)

lemma shape_get_set:
  assumes "(\<exists>kvs k. obj = FObj kvs \<and> p = Key k) \<or> (\<exists>xs n. obj = FArr xs \<and> p = Idx n \<and> n < length xs)"
  shows "getProp (setProp obj p v) p = Some v"
  using assms by (auto simp: lookup_setKey)

lemma shape_plain:
  assumes "(\<exists>kvs k. obj = FObj kvs \<and> p = Key k) \<or> (\<exists>xs n. obj = FArr xs \<and> p = Idx n \<and> n < length xs)"
    and "plainPath v ps"
  shows "plainPath (setProp obj p v) (p # ps)"
proof -
  from assms(1) consider kvs k where "obj = FObj kvs" "p = Key k"
    | xs n where "obj = FArr xs" "p = Idx n" "n < length xs" by blast
  then show ?thesis
  proof cases
    case 1
    with assms(2) show ?thesis by (simp add: lookup_setKey)
  next
    case 2
    with assms(2) show ?thesis by simp
  qed
qed

lemma shape_kind:
  assumes "(\<exists>kvs k. obj = FObj kvs \<and> p = Key k) \<or> (\<exists>xs n. obj = FArr xs \<and> p = Idx n \<and> n < length xs)"
  shows "obj \<noteq> FNull" "obj \<noteq> FStr s" "setProp obj p v \<noteq> FNull"
    "obj = FObj kvs \<Longrightarrow> \<exists>kvs'. setProp obj p v = FObj kvs'"
proof -
  from assms show "obj \<noteq> FNull" "obj \<noteq> FStr s" by auto
  from assms show "setProp obj p v \<noteq> FNull" by (cases p) auto
  show "obj = FObj kvs \<Longrightarrow> \<exists>kvs'. setProp obj p v = FObj kvs'" by (cases p) simp_all
qed

lemma addSidLeaf_stores:
  assumes g: "getProp obj p = Some (FStr u)" and n: "\<forall>s. obj \<noteq> FStr s"
    and u: "u \<noteq> []" "\<not> includes_str u ''#sid=''"
  shows "addSidLeaf obj p sid = Inr (setProp obj p (FStr (u @ ''#sid='' @ sid)))"
proof (cases p)
  case (Key k)
  with g u show ?thesis by (simp add: addSidLeaf_def)
next
  case (Idx i)
  with g u n show ?thesis by (cases obj) (simp_all add: addSidLeaf_def)
qed

lemma addSidAt_Cons2:
  "addSidAt obj (p # q # ps) sid =
     (case getProp obj p of
        None \<Rightarrow> Inl TypeError
      | Some c \<Rightarrow> if c = FNull then Inl TypeError
                  else (case addSidAt c (q # ps) sid of
                          Inl e \<Rightarrow> Inl e | Inr c' \<Rightarrow> Inr (setProp obj p c')))"
  by (simp split: option.splits fmval.splits)

lemma addSidAt_stores:
  assumes u: "u \<noteq> []" "\<not> includes_str u ''#sid=''"
  shows "ps \<noteq> [] \<Longrightarrow> plainPath obj ps \<Longrightarrow> follow (Some obj) ps = Some (FStr u) \<Longrightarrow>
         \<exists>obj'. addSidAt obj ps sid = Inr obj'
           \<and> follow (Some obj') ps = Some (FStr (u @ ''#sid='' @ sid))
           \<and> plainPath obj' ps
           \<and> (\<forall>kvs. obj = FObj kvs \<longrightarrow> (\<exists>kvs'. obj' = FObj kvs'))"
proof (induction ps arbitrary: obj)
  case Nil
  then show ?case by simp
next
  case (Cons p ps)
  note sh = plainPath_shape [OF Cons.prems(2)]
  from plainPath_child [OF Cons.prems(2)] obtain c where
    c: "getProp obj p = Some c" "plainPath c ps" by blast
  note k = shape_kind [OF sh]
  have f: "follow (Some c) ps = Some (FStr u)"
    using Cons.prems(3) c(1) k(1) by (simp only: follow_Cons [of obj] if_False)
  show ?case
  proof (cases ps)
    case Nil
    from f Nil have cu: "c = FStr u" by simp
    let ?o = "setProp obj p (FStr (u @ ''#sid='' @ sid))"
    have ns: "\<forall>s. obj \<noteq> FStr s" using k(2) by blast
    have leaf: "addSidAt obj [p] sid = Inr ?o"
      using addSidLeaf_stores [OF c(1) [unfolded cu] ns u] by simp
    have g: "follow (Some ?o) [p] = Some (FStr (u @ ''#sid='' @ sid))"
      using shape_get_set [OF sh] k(3) by (simp only: follow_Cons [of ?o] follow_Nil if_False)
    have pl: "plainPath ?o [p]" by (rule shape_plain [OF sh]) simp
    have kk: "\<forall>kvs. obj = FObj kvs \<longrightarrow> (\<exists>kvs'. ?o = FObj kvs')"
      by (intro allI impI) (rule k(4))
    from leaf g pl kk show ?thesis unfolding Nil by (intro exI [of _ ?o] conjI)
  next
    case tl: (Cons q qs)
    have cn: "c \<noteq> FNull" using c(2) tl by auto
    have "ps \<noteq> []" using tl by simp
    from Cons.IH [OF this c(2) f] obtain c' where
      c': "addSidAt c ps sid = Inr c'"
        "follow (Some c') ps = Some (FStr (u @ ''#sid='' @ sid))" "plainPath c' ps"
      by (elim exE conjE) (rule that)
    let ?o = "setProp obj p c'"
    have a: "addSidAt obj (p # ps) sid = Inr ?o"
      unfolding tl addSidAt_Cons2 using c(1) cn c'(1) [unfolded tl] by simp
    have g: "follow (Some ?o) (p # ps) = Some (FStr (u @ ''#sid='' @ sid))"
      using shape_get_set [OF sh] k(3) c'(2) by (simp only: follow_Cons [of ?o] if_False)
    have pl: "plainPath ?o (p # ps)" by (rule shape_plain [OF sh c'(3)])
    have kk: "\<forall>kvs. obj = FObj kvs \<longrightarrow> (\<exists>kvs'. ?o = FObj kvs')"
      by (intro allI impI) (rule k(4))
    from a g pl kk show ?thesis by (intro exI [of _ ?o] conjI)
  qed
qed

lemma addSidToFieldUrl_stores:
  assumes w: "frontmatterWritable s" and st: "stored (fileFrontmatter s) fieldName u"
    and u: "u \<noteq> []" "\<not> includes_str u ''#sid=''"
  shows "\<exists>entries. addSidToFieldUrl fl fieldName sid s = (Inr (), s\<lparr>fileFrontmatter := entries\<rparr>)
           \<and> getFieldValue (Some entries) fieldName = Some (FStr (u @ ''#sid='' @ sid))
           \<and> stored entries fieldName (u @ ''#sid='' @ sid)"
proof -
  let ?ps = "pathParts fieldName"
  from st have ne: "?ps \<noteq> []" and pl: "plainPath (FObj (fileFrontmatter s)) ?ps"
    and g: "getFieldValue (Some (fileFrontmatter s)) fieldName = Some (FStr u)"
    by (simp_all add: stored_def)
  from g ne have f: "follow (Some (FObj (fileFrontmatter s))) ?ps = Some (FStr u)"
    by (simp add: getFieldValue_def Let_def)
  from addSidAt_stores [OF u ne pl f, of sid] obtain obj' where
    o: "addSidAt (FObj (fileFrontmatter s)) ?ps sid = Inr obj'"
      "follow (Some obj') ?ps = Some (FStr (u @ ''#sid='' @ sid))"
      "plainPath obj' ?ps"
      "\<forall>kvs. FObj (fileFrontmatter s) = FObj kvs \<longrightarrow> (\<exists>kvs'. obj' = FObj kvs')"
    by (elim exE conjE) (rule that)
  from o(4) obtain entries where e: "obj' = FObj entries" by blast
  have a: "addSidToFieldUrl fl fieldName sid s = (Inr (), s\<lparr>fileFrontmatter := entries\<rparr>)"
    using w ne o(1) e by (simp add: addSidToFieldUrl_def Let_def)
  have b: "getFieldValue (Some entries) fieldName = Some (FStr (u @ ''#sid='' @ sid))"
    using ne o(2) e by (simp add: getFieldValue_def Let_def)
  have c: "stored entries fieldName (u @ ''#sid='' @ sid)"
    unfolding stored_def using ne o(3) [unfolded e] b by (intro conjI)
  from a b c show ?thesis by (intro exI [of _ entries] conjI)
qed

lemma getOrCreate_found:
  "extractSidFromUrl u = Some sid \<Longrightarrow>
     getOrCreateSingularityId fl (Some (FStr u)) fieldName s = (Inr sid, s)"
  by (simp add: getOrCreateSingularityId_def)

lemma getOrCreate_absent:
  "extractSidFromUrl u = None \<Longrightarrow>
     getOrCreateSingularityId fl (Some (FStr u)) fieldName s =
       (case addSidToFieldUrl fl fieldName (generateUUID (random s) (draws s))
               (s\<lparr>draws := draws s + 31\<rparr>) of
          (Inl e, s2) \<Rightarrow> (Inl e, s2)
        | (Inr _, s2) \<Rightarrow> (Inr (generateUUID (random s) (draws s)), s2))"
  by (simp add: getOrCreateSingularityId_def Let_def)

lemma getOrCreate_persists:
  fixes fl :: TFile and s :: Plugin
  assumes x: "extractSidFromUrl u = None" and u: "u \<noteq> []" "\<not> includes_str u ''#sid=''"
    and w: "frontmatterWritable s" and st: "stored (fileFrontmatter s) fieldName u"
  defines "uuid \<equiv> generateUUID (random s) (draws s)"
  defines "r \<equiv> getOrCreateSingularityId fl (Some (FStr u)) fieldName s"
  shows "fst r = Inr uuid"
    and "getFieldValue (Some (fileFrontmatter (snd r))) fieldName = Some (FStr (u @ ''#sid='' @ uuid))"
    and "getOrCreateSingularityId fl (Some (FStr (u @ ''#sid='' @ uuid))) fieldName (snd r)
           = (Inr uuid, snd r)"
    and "draws (snd r) = draws s + 31"
    and "random (snd r) = random s"
    and "frontmatterWritable (snd r)"
    and "stored (fileFrontmatter (snd r)) fieldName (u @ ''#sid='' @ uuid)"
proof -
  let ?s1 = "s\<lparr>draws := draws s + 31\<rparr>"
  have w1: "frontmatterWritable ?s1" using w by simp
  have st1: "stored (fileFrontmatter ?s1) fieldName u" using st by simp
  from addSidToFieldUrl_stores [OF w1 st1 u, of fl uuid] obtain entries where
    e: "addSidToFieldUrl fl fieldName uuid ?s1 = (Inr (), ?s1\<lparr>fileFrontmatter := entries\<rparr>)"
       "getFieldValue (Some entries) fieldName = Some (FStr (u @ ''#sid='' @ uuid))"
       "stored entries fieldName (u @ ''#sid='' @ uuid)"
    by (elim exE conjE) (rule that)
  have r: "r = (Inr uuid, ?s1\<lparr>fileFrontmatter := entries\<rparr>)"
    unfolding r_def getOrCreate_absent [OF x] using e(1) by (simp add: uuid_def)
  from r show "fst r = Inr uuid" by simp
  from r e(2) show "getFieldValue (Some (fileFrontmatter (snd r))) fieldName
      = Some (FStr (u @ ''#sid='' @ uuid))" by simp
  have "extractSidFromUrl (u @ ''#sid='' @ uuid) = Some uuid"
    unfolding uuid_def by (rule extractSid_appended [OF x generateUUID_sidChars])
  then show "getOrCreateSingularityId fl (Some (FStr (u @ ''#sid='' @ uuid))) fieldName (snd r)
           = (Inr uuid, snd r)" by (rule getOrCreate_found)
  from r show "draws (snd r) = draws s + 31" by simp
  from r show "random (snd r) = random s" by simp
  from r w show "frontmatterWritable (snd r)" by simp
  from r e(3) show "stored (fileFrontmatter (snd r)) fieldName (u @ ''#sid='' @ uuid)" by simp
qed







section \<open>The state after a run\<close>














section \<open>Idempotence (C1)\<close>




section \<open>Migration of a legacy link (C5)\<close>

text \<open>
  C5. The body of the task has exactly one operation whose link is of the
  \<open>obsidian://\<close> scheme without \<open>#sid=\<close>, at position \<open>i\<close>, and no operation whose
  link contains \<open>#sid=<identifier>\<close>. Then a run for the reference succeeds and sends
  one write, whose body is the old body with \<open>#sid=<identifier>\<close> appended to the link
  of the operation at \<open>i\<close>: the same number of operations, the same text at \<open>i\<close>, all
  other operations as they were. The remote store then holds that body.
\<close>

theorem legacy_migration:
  assumes g: "getOrCreateSingularityId fl (getFieldValue (metadataFrontmatter s) fieldName)
                fieldName s = (Inr sid, s1)"
    and tok: "token (plugin_api s) \<noteq> []"
    and b: "taskBody s taskId = Some ops"
    and i: "i < length ops"
    and one: "isLegacyLink (ops ! i)" "\<forall>j < length ops. j \<noteq> i \<longrightarrow> \<not> isLegacyLink (ops ! j)"
    and none: "\<forall>j < length ops. \<not> carriesSid sid (ops ! j)"
  shows "\<exists>a lnk d.
           attributes (ops ! i) = Some a \<and> link a = Some lnk
           \<and> d = ops[i := (ops ! i)\<lparr>attributes := Some (a\<lparr>link := Some (lnk @ ''#sid='' @ sid)\<rparr>)\<rparr>]
           \<and> fst (syncObsidianUrl taskId fl fieldName s) = Inr ()
           \<and> writes (snd (syncObsidianUrl taskId fl fieldName s)) = writes s @ [PATCH_task taskId d]
           \<and> taskBody (snd (syncObsidianUrl taskId fl fieldName s)) taskId = Some d
           \<and> length d = length ops \<and> insert_text (d ! i) = insert_text (ops ! i)
           \<and> (\<forall>j < length ops. j \<noteq> i \<longrightarrow> d ! j = ops ! j)"
proof -
  have n: "findObsidianLinkById ops sid = None"
    using none by (auto simp: findObsidianLinkById_def scan_None in_set_conv_nth)
  have "scan isLegacyLink ops 0 = Some (0 + i, ops ! i)"
    using i one by (intro scan_first) auto
  then have l: "findAnyObsidianLink ops = Some (i, ops ! i)"
    by (simp add: findAnyObsidianLink_def)
  from find_after_migration [OF n l] obtain a lnk where
    a: "attributes (ops ! i) = Some a" "link a = Some lnk"
    and ad: "addSidToLink ops i sid
        = Some (ops[i := (ops ! i)\<lparr>attributes := Some (a\<lparr>link := Some (lnk @ ''#sid='' @ sid)\<rparr>)\<rparr>])"
    by blast
  define d where "d = ops[i := (ops ! i)\<lparr>attributes := Some (a\<lparr>link := Some (lnk @ ''#sid='' @ sid)\<rparr>)\<rparr>]"
  have r: "resolveLink (OpsArray ops) (file_basename fl) (noteUrl s fl) sid = Inr (Some d)"
    by (simp add: resolveLink_def n l ad d_def)
  note w = sync_step_created [OF g tok b r]
  have "length d = length ops" "insert_text (d ! i) = insert_text (ops ! i)"
    "\<forall>j < length ops. j \<noteq> i \<longrightarrow> d ! j = ops ! j"
    using i by (simp_all add: d_def)
  with a w d_def show ?thesis by blast
qed

text \<open>
  The sample note and the body with the legacy link to \<open>Old.md\<close> at position 2: the
  write carries the same four operations, with the identifier added to that link.
\<close>

theorem legacy_migration_witness:
  "taskBody (sample_plugin sample_reference (Json (OpsArray legacy_body))) ''T-1'' = Some legacy_body
   \<and> isLegacyLink (legacy_body ! 2)
   \<and> fst (syncObsidianUrl ''T-1'' sample_file ''task''
            (sample_plugin sample_reference (Json (OpsArray legacy_body)))) = Inr ()
   \<and> writes (snd (syncObsidianUrl ''T-1'' sample_file ''task''
            (sample_plugin sample_reference (Json (OpsArray legacy_body)))))
       = [PATCH_task ''T-1'' migrated_body]"
proof -
  let ?L = "sample_plugin sample_reference (Json (OpsArray legacy_body))"
  have g: "getOrCreateSingularityId sample_file (getFieldValue (metadataFrontmatter ?L) ''task'')
                ''task'' ?L = (Inr ''ab12'', ?L)"
    by (rule fieldSid_getOrCreate [OF sample_fieldSid])
  have b: "taskBody ?L ''T-1'' = Some legacy_body" by (rule sample_taskBody)
  have i: "2 < length legacy_body" by (simp add: legacy_body_def)
  have one: "isLegacyLink (legacy_body ! 2)"
    "\<forall>j < length legacy_body. j \<noteq> 2 \<longrightarrow> \<not> isLegacyLink (legacy_body ! j)"
    by (simp_all add: legacy_body_def isLegacyLink_def op_link_def newline_op_def startsWith_def
        SID_FRAGMENT_def less_Suc_eq numeral_nat)
  have none: "\<forall>j < length legacy_body. \<not> carriesSid ''ab12'' (legacy_body ! j)"
    by (simp add: legacy_body_def carriesSid_def op_link_def newline_op_def startsWith_def
        SID_FRAGMENT_def less_Suc_eq numeral_nat)
  have r: "resolveLink (OpsArray legacy_body) (file_basename sample_file) (noteUrl ?L sample_file) ''ab12''
      = Inr (Some migrated_body)"
    by (simp add: sample_noteUrl sample_basename resolve_legacy)
  note w = sync_writes [OF sample_fieldSid sample_token sample_taskBody r]
  have r1: "fst (syncObsidianUrl ''T-1'' sample_file ''task'' ?L) = Inr ()" by (rule w)
  have r2: "writes (snd (syncObsidianUrl ''T-1'' sample_file ''task'' ?L))
       = [PATCH_task ''T-1'' migrated_body]" by (simp add: w sample_writes)
  from legacy_migration [OF g sample_token b i one none] b one(1) r1 r2
  show ?thesis by - (intro conjI, assumption+)
qed

section \<open>A body that does not parse (C7)\<close>

text \<open>
  C7, as amended. When the content of the task's note is no JSON (\<open>JSON.parse\<close>
  throws), \<open>parseNoteContent\<close> gives the empty sequence, and a run for the reference
  succeeds and writes a body that consists of the new identified link and a newline.
\<close>

theorem malformed_body:
  assumes g: "getOrCreateSingularityId fl (getFieldValue (metadataFrontmatter s) fieldName)
                fieldName s = (Inr sid, s1)"
    and tok: "token (plugin_api s) \<noteq> []"
    and t: "taskStore (plugin_api s) taskId = Some task"
    and n: "truthy_note (task_note task)"
    and c: "noteStore (plugin_api s) (the (task_note task)) = Some SyntaxError"
  shows "parseNoteContent SyntaxError = OpsArray []
         \<and> fst (syncObsidianUrl taskId fl fieldName s) = Inr ()
         \<and> writes (snd (syncObsidianUrl taskId fl fieldName s))
             = writes s @ [PATCH_task taskId
                             [\<lparr>insert_text = linkText (file_basename fl),
                               attributes = Some \<lparr>link = Some (noteUrl s fl @ ''#sid='' @ sid),
                                                  formatting = []\<rparr>\<rparr>,
                              newline_op]]"
proof -
  have p: "parseNoteContent SyntaxError = OpsArray []" by (simp add: parseNoteContent_def)
  have b: "taskBody s taskId = Some []" using t n c by (simp add: taskBody_def p)
  have r: "resolveLink (OpsArray []) (file_basename fl) (noteUrl s fl) sid
      = Inr (Some [\<lparr>insert_text = linkText (file_basename fl),
                               attributes = Some \<lparr>link = Some (noteUrl s fl @ ''#sid='' @ sid),
                                                  formatting = []\<rparr>\<rparr>,
                              newline_op])"
    by (simp add: resolveLink_def findObsidianLinkById_def findAnyObsidianLink_def
        update_when_absent createNoteLinkOps_def SID_FRAGMENT_def)
  from sync_step_created [OF g tok b r] p show ?thesis by simp
qed

theorem malformed_body_witness:
  "noteStore (plugin_api (sample_plugin sample_reference SyntaxError)) ''N-T-1'' = Some SyntaxError
   \<and> fst (syncObsidianUrl ''T-1'' sample_file ''task'' (sample_plugin sample_reference SyntaxError))
       = Inr ()
   \<and> writes (snd (syncObsidianUrl ''T-1'' sample_file ''task''
                     (sample_plugin sample_reference SyntaxError)))
       = [PATCH_task ''T-1''
            [\<lparr>insert_text = linkText ''New'',
              attributes = Some \<lparr>link = Some ''obsidian://open?vault=V&file=New.md#sid=ab12'',
                                 formatting = []\<rparr>\<rparr>,
             newline_op]]"
proof -
  let ?E = "sample_plugin sample_reference SyntaxError"
  have g: "getOrCreateSingularityId sample_file (getFieldValue (metadataFrontmatter ?E) ''task'')
                ''task'' ?E = (Inr ''ab12'', ?E)"
    by (rule fieldSid_getOrCreate [OF sample_fieldSid])
  have n: "truthy_note (task_note ((sample_task 0)\<lparr>task_note := Some ''N-T-1''\<rparr>))"
    by (simp add: truthy_note_def)
  have c: "noteStore (plugin_api ?E) (the (task_note ((sample_task 0)\<lparr>task_note := Some ''N-T-1''\<rparr>)))
      = Some SyntaxError" by (simp add: sample_plugin_def)
  have c': "noteStore (plugin_api ?E) ''N-T-1'' = Some SyntaxError" by (simp add: sample_plugin_def)
  from malformed_body [OF g sample_token sample_task_stored n c]
  have "fst (syncObsidianUrl ''T-1'' sample_file ''task'' ?E) = Inr ()"
    and "writes (snd (syncObsidianUrl ''T-1'' sample_file ''task'' ?E))
       = [PATCH_task ''T-1''
            [\<lparr>insert_text = linkText ''New'',
              attributes = Some \<lparr>link = Some ''obsidian://open?vault=V&file=New.md#sid=ab12'',
                                 formatting = []\<rparr>\<rparr>,
             newline_op]]"
    by (simp_all add: sample_writes sample_noteUrl sample_basename)
  with c' show ?thesis by - (intro conjI, assumption+)
qed

text \<open>
  The claim as stated fails for a content that is JSON but no sequence, such as the
  object \<open>{}\<close>: \<open>parseNoteContent\<close> returns the object, not the empty sequence, and
  the run for the reference rejects with a TypeError (the spread of
  \<open>updateObsidianLinkById\<close>) without any write.
\<close>

theorem malformed_body_counterexample:
  "parseNoteContent (Json (NonArray JObject)) \<noteq> OpsArray []
   \<and> fst (syncObsidianUrl ''T-1'' sample_file ''task''
            (sample_plugin sample_reference (Json (NonArray JObject)))) = Inl TypeError
   \<and> writes (snd (syncObsidianUrl ''T-1'' sample_file ''task''
                     (sample_plugin sample_reference (Json (NonArray JObject))))) = []"
proof -
  let ?J = "sample_plugin sample_reference (Json (NonArray JObject))"
  have g: "getOrCreateSingularityId sample_file (getFieldValue (metadataFrontmatter ?J) ''task'')
                ''task'' ?J = (Inr ''ab12'', ?J)"
    by (rule fieldSid_getOrCreate [OF sample_fieldSid])
  have c: "noteStore (plugin_api ?J) ''N-T-1'' = Some (Json (NonArray JObject))"
    by (simp add: sample_plugin_def)
  have e: "syncObsidianUrl ''T-1'' sample_file ''task'' ?J
      = (Inl TypeError, logged ?J [GET_task ''T-1'', GET_note ''N-T-1''])"
    using sync_unfold [OF g sample_token sample_task_stored]
    by (simp add: truthy_note_def c parseNoteContent_def resolveLink_def)
  show ?thesis
    by (simp add: e writes_logged isWrite_def sample_writes parseNoteContent_def)
qed

section \<open>Stability of the identifier (C6)\<close>

text \<open>
  C6, as amended. When the regular expression of \<open>extractSidFromUrl\<close> matches the field
  value, \<open>getOrCreateSingularityId\<close> returns the matched identifier and changes nothing;
  this is the case for a value that ends with \<open>#sid=<identifier>\<close> where the
  identifier is a non-empty string of hexadecimal digits and hyphens and the text before
  has no match. When the value is a non-empty string without \<open>#sid=\<close> and without a
  match, and the file holds it at the field, the result is a new identifier made from the
  next 31 draws of the random source, in the format of a version-4 UUID; the file then
  holds the value followed by \<open>#sid=<identifier>\<close> at the field, and a call on that
  value returns the same identifier and changes nothing.
\<close>

theorem identity_stability:
  "(extractSidFromUrl v = Some sid \<longrightarrow>
      getOrCreateSingularityId fl (Some (FStr v)) fieldName s = (Inr sid, s))
   \<and> (extractSidFromUrl b = None \<and> sid' \<noteq> [] \<and> (\<forall>c \<in> set sid'. isSidChar c) \<longrightarrow>
      getOrCreateSingularityId fl (Some (FStr (b @ ''#sid='' @ sid'))) fieldName s = (Inr sid', s))
   \<and> (extractSidFromUrl u = None \<and> \<not> includes_str u ''#sid='' \<and> u \<noteq> []
        \<and> frontmatterWritable s \<and> stored (fileFrontmatter s) fieldName u \<longrightarrow>
      (let uuid = generateUUID (random s) (draws s);
           r = getOrCreateSingularityId fl (Some (FStr u)) fieldName s
       in fst r = Inr uuid \<and> isUUIDv4 uuid \<and> draws (snd r) = draws s + 31
          \<and> getFieldValue (Some (fileFrontmatter (snd r))) fieldName
                = Some (FStr (u @ ''#sid='' @ uuid))
          \<and> getOrCreateSingularityId fl (Some (FStr (u @ ''#sid='' @ uuid))) fieldName (snd r)
                = (Inr uuid, snd r)))"
proof (intro conjI impI)
  assume "extractSidFromUrl v = Some sid"
  then show "getOrCreateSingularityId fl (Some (FStr v)) fieldName s = (Inr sid, s)"
    by (rule getOrCreate_found)
next
  assume a: "extractSidFromUrl b = None \<and> sid' \<noteq> [] \<and> (\<forall>c \<in> set sid'. isSidChar c)"
  then have "extractSidFromUrl (b @ ''#sid='' @ sid') = Some sid'"
    by (intro extractSid_appended) simp_all
  then show "getOrCreateSingularityId fl (Some (FStr (b @ ''#sid='' @ sid'))) fieldName s = (Inr sid', s)"
    by (rule getOrCreate_found)
next
  assume a: "extractSidFromUrl u = None \<and> \<not> includes_str u ''#sid='' \<and> u \<noteq> []
        \<and> frontmatterWritable s \<and> stored (fileFrontmatter s) fieldName u"
  then have x: "extractSidFromUrl u = None" and n: "u \<noteq> []" "\<not> includes_str u ''#sid=''"
    and w: "frontmatterWritable s" and st: "stored (fileFrontmatter s) fieldName u"
    by simp_all
  note p = getOrCreate_persists [OF x n w st, of fl]
  show "let uuid = generateUUID (random s) (draws s);
           r = getOrCreateSingularityId fl (Some (FStr u)) fieldName s
       in fst r = Inr uuid \<and> isUUIDv4 uuid \<and> draws (snd r) = draws s + 31
          \<and> getFieldValue (Some (fileFrontmatter (snd r))) fieldName
                = Some (FStr (u @ ''#sid='' @ uuid))
          \<and> getOrCreateSingularityId fl (Some (FStr (u @ ''#sid='' @ uuid))) fieldName (snd r)
                = (Inr uuid, snd r)"
    unfolding Let_def using p generateUUID_v4 [of "random s" "draws s"]
    by (intro conjI)
qed

text \<open>
  The sample note: a reference with the identifier \<open>ab12\<close> is answered from the
  value; for the reference without an identifier the first call makes the identifier
  from the draws 0 to 30, the file then holds it, and the second call reads it back.
\<close>

theorem identity_stability_witness:
  "extractSidFromUrl sample_reference = Some ''ab12''
   \<and> getOrCreateSingularityId sample_file (Some (FStr sample_reference)) ''task''
        (sample_plugin sample_reference SyntaxError)
       = (Inr ''ab12'', sample_plugin sample_reference SyntaxError)
   \<and> extractSidFromUrl plain_reference = None \<and> list_all isSidChar ''ab12''
   \<and> getOrCreateSingularityId sample_file (Some (FStr (plain_reference @ ''#sid='' @ ''ab12''))) ''task''
        (sample_plugin sample_reference SyntaxError)
       = (Inr ''ab12'', sample_plugin sample_reference SyntaxError)
   \<and> \<not> includes_str plain_reference ''#sid=''
   \<and> stored (fileFrontmatter (sample_plugin plain_reference SyntaxError)) ''task'' plain_reference
   \<and> generateUUID (random (sample_plugin plain_reference SyntaxError))
         (draws (sample_plugin plain_reference SyntaxError))
       = ''3a18f6d4-b290-47e5-83a1-8f6d4b2907e5''
   \<and> (let uuid = generateUUID (random (sample_plugin plain_reference SyntaxError))
                    (draws (sample_plugin plain_reference SyntaxError));
           r = getOrCreateSingularityId sample_file (Some (FStr plain_reference)) ''task''
                 (sample_plugin plain_reference SyntaxError)
       in fst r = Inr uuid \<and> isUUIDv4 uuid
          \<and> draws (snd r) = draws (sample_plugin plain_reference SyntaxError) + 31
          \<and> getFieldValue (Some (fileFrontmatter (snd r))) ''task''
                = Some (FStr (plain_reference @ ''#sid='' @ uuid))
          \<and> getOrCreateSingularityId sample_file (Some (FStr (plain_reference @ ''#sid='' @ uuid)))
                ''task'' (snd r)
                = (Inr uuid, snd r))"
proof -
  let ?S = "sample_plugin sample_reference SyntaxError"
  let ?P = "sample_plugin plain_reference SyntaxError"
  note t = identity_stability [of sample_reference "''ab12''" sample_file "''task''" ?S
      plain_reference "''ab12''" plain_reference]
  have h1: "extractSidFromUrl sample_reference = Some ''ab12''" by code_simp
  have h2: "extractSidFromUrl plain_reference = None" by code_simp
  have h3: "list_all isSidChar ''ab12''" by code_simp
  have h4: "\<not> includes_str plain_reference ''#sid=''" by code_simp
  have h5: "plain_reference \<noteq> []" by (simp add: plain_reference_def)
  have h6: "frontmatterWritable ?P" by (simp add: sample_plugin_def)
  have h7: "stored (fileFrontmatter ?P) ''task'' plain_reference" by code_simp
  have h8: "generateUUID (random ?P) (draws ?P) = ''3a18f6d4-b290-47e5-83a1-8f6d4b2907e5''"
    by code_simp
  have c1: "getOrCreateSingularityId sample_file (Some (FStr sample_reference)) ''task'' ?S
       = (Inr ''ab12'', ?S)"
    using t [THEN conjunct1] h1 by (rule mp)
  have h23: "extractSidFromUrl plain_reference = None \<and> ''ab12'' \<noteq> [] \<and> (\<forall>c \<in> set ''ab12''. isSidChar c)"
    using h2 h3 by (simp add: list_all_iff)
  have c2: "getOrCreateSingularityId sample_file (Some (FStr (plain_reference @ ''#sid='' @ ''ab12''))) ''task'' ?S
       = (Inr ''ab12'', ?S)"
    using t [THEN conjunct2, THEN conjunct1] h23 by (rule mp)
  note t' = identity_stability [of sample_reference "''ab12''" sample_file "''task''" ?P
      plain_reference "''ab12''" plain_reference]
  have h: "extractSidFromUrl plain_reference = None \<and> \<not> includes_str plain_reference ''#sid=''
        \<and> plain_reference \<noteq> [] \<and> frontmatterWritable ?P
        \<and> stored (fileFrontmatter ?P) ''task'' plain_reference"
    using h2 h4 h5 h6 h7 by (intro conjI)
  note c3 = t' [THEN conjunct2, THEN conjunct2, THEN mp, OF h]
  from h1 c1 h2 h3 c2 h4 h7 h8 c3 show ?thesis by - (intro conjI, assumption+)
qed

text \<open>
  The claim as stated fails for a value that carries \<open>#sid=\<close> followed by a text that
  is no hexadecimal digit or hyphen: the result is a generated identifier and not the
  text of the fragment, the file is left as it was, since its value contains \<open>#sid=\<close>,
  and the next call on the same value gives another identifier.
\<close>

theorem identity_stability_counterexample:
  "includes_str odd_reference ''#sid=''
   \<and> stored (fileFrontmatter (sample_plugin odd_reference SyntaxError)) ''task'' odd_reference
   \<and> fst (getOrCreateSingularityId sample_file (Some (FStr odd_reference)) ''task''
            (sample_plugin odd_reference SyntaxError))
       = Inr ''3a18f6d4-b290-47e5-83a1-8f6d4b2907e5''
   \<and> fileFrontmatter (snd (getOrCreateSingularityId sample_file (Some (FStr odd_reference)) ''task''
            (sample_plugin odd_reference SyntaxError)))
       = fileFrontmatter (sample_plugin odd_reference SyntaxError)
   \<and> fst (getOrCreateSingularityId sample_file (Some (FStr odd_reference)) ''task''
            (snd (getOrCreateSingularityId sample_file (Some (FStr odd_reference)) ''task''
                    (sample_plugin odd_reference SyntaxError))))
       = Inr ''c3a18f6d-4b29-407e-9c3a-18f6d4b2907e''"
  by code_simp

end
